theory Spec2Isabelle
  imports Complex_Main
begin

section \<open>Python text\<close>

text \<open>
  A Python \<open>str\<close> is a sequence of Unicode code points, and \<open>len\<close>, slicing and
  \<open>in\<close> count code points. A string is therefore modelled as the list of its code
  points; \<open>S ''abc''\<close> is the string with the characters of an ASCII literal.
\<close>

type_synonym pystr = "nat list"

abbreviation S :: "string \<Rightarrow> pystr" where
  "S s \<equiv> map of_char s"

definition ellipsis :: pystr where
  \<comment> \<open>the one-character string U+2026 that the source appends after a cut\<close>
  "ellipsis = [8230]"

definition py_isspace :: "nat \<Rightarrow> bool" where
  \<comment> \<open>the code points that \<open>str.split()\<close> and \<open>str.strip()\<close> treat as whitespace\<close>
  "py_isspace c \<longleftrightarrow>
     (9 \<le> c \<and> c \<le> 13) \<or> (28 \<le> c \<and> c \<le> 32) \<or> c = 133 \<or> c = 160 \<or> c = 5760 \<or>
     (8192 \<le> c \<and> c \<le> 8202) \<or> c = 8232 \<or> c = 8233 \<or> c = 8239 \<or> c = 8287 \<or> c = 12288"

definition py_strip :: "pystr \<Rightarrow> pystr" where
  "py_strip s = rev (dropWhile py_isspace (rev (dropWhile py_isspace s)))"

fun split_scan :: "pystr \<Rightarrow> pystr \<Rightarrow> pystr list" where
  "split_scan cur [] = (if cur = [] then [] else [cur])"
| "split_scan cur (c # cs) =
     (if py_isspace c then (if cur = [] then split_scan [] cs else cur # split_scan [] cs)
      else split_scan (cur @ [c]) cs)"

definition py_split :: "pystr \<Rightarrow> pystr list" where
  \<comment> \<open>\<open>s.split()\<close>: the maximal runs of non-whitespace, in order\<close>
  "py_split s = split_scan [] s"

fun join :: "pystr \<Rightarrow> pystr list \<Rightarrow> pystr" where
  "join sep [] = []"
| "join sep [x] = x"
| "join sep (x # y # ys) = x @ sep @ join sep (y # ys)"

fun dec_nat :: "nat \<Rightarrow> pystr" where
  "dec_nat n = (if n < 10 then [48 + n] else dec_nat (n div 10) @ [48 + n mod 10])"

declare dec_nat.simps [simp del]

definition py_str_int :: "int \<Rightarrow> pystr" where
  "py_str_int i = (if i < 0 then 45 # dec_nat (nat (- i)) else dec_nat (nat i))"

text \<open>
  Exceptions are values: each carries the text that \<open>str(e)\<close> gives, the
  \<open>HTTPException\<close> of FastAPI its status and its detail. The texts of the built-in
  errors are those of CPython 3.11.
\<close>

datatype pyerr =
    AttributeError pystr
  | TypeError pystr
  | ValueError pystr
  | OverflowError pystr
  | HTTPError pystr
  | RequestException pystr
  | JSONDecodeError pystr
  | HTTPException nat pystr

text \<open>
  What the code takes from Python's library and the Unicode database, and is not code
  of this repository: \<open>textwrap.shorten(text, width, placeholder)\<close>, the \<open>repr\<close> of a
  computed float, and for code points beyond ASCII whether \<open>repr\<close> prints them as they
  are, whether \<open>str.isdigit\<close> holds of them, and what \<open>int\<close> makes of a string that
  contains them or is longer than 4300 characters. The model takes them as a parameter
  \<open>L\<close>; every theorem holds for every such library.
\<close>

record pylib =
  shorten :: "pystr \<Rightarrow> nat \<Rightarrow> pystr \<Rightarrow> pystr"
  float_repr :: "real \<Rightarrow> pystr"
  isprintable_uni :: "nat \<Rightarrow> bool"
  isdigit_uni :: "nat \<Rightarrow> bool"
  int_uni :: "pystr \<Rightarrow> pyerr + int"

definition hex_digit :: "nat \<Rightarrow> nat" where
  "hex_digit d = (if d < 10 then 48 + d else 87 + d)"

fun hexn :: "nat \<Rightarrow> nat \<Rightarrow> pystr" where
  "hexn 0 n = []"
| "hexn (Suc w) n = hexn w (n div 16) @ [hex_digit (n mod 16)]"

definition repr_char :: "pylib \<Rightarrow> nat \<Rightarrow> nat \<Rightarrow> pystr" where
  "repr_char L q c =
     (if c = q \<or> c = 92 then [92, c]
      else if c = 9 then [92, 116]
      else if c = 10 then [92, 110]
      else if c = 13 then [92, 114]
      else if c < 32 \<or> c = 127 then [92, 120] @ hexn (Suc (Suc 0)) c
      else if c < 127 then [c]
      else if isprintable_uni L c then [c]
      else if c < 256 then [92, 120] @ hexn (Suc (Suc 0)) c
      else if c < 65536 then [92, 117] @ hexn (Suc (Suc (Suc (Suc 0)))) c
      else [92, 85] @ hexn (Suc (Suc (Suc (Suc (Suc (Suc (Suc (Suc 0)))))))) c)"

definition repr_str :: "pylib \<Rightarrow> pystr \<Rightarrow> pystr" where
  \<comment> \<open>\<open>repr\<close> of a str: double quotes only when it has a single quote and no double quote\<close>
  "repr_str L s =
     (let q = (if 39 \<in> set s \<and> 34 \<notin> set s then 34 else 39)
      in [q] @ concat (map (repr_char L q) s) @ [q])"

section \<open>JSON values as Python objects\<close>

text \<open>
  \<open>json.loads\<close> gives \<open>None\<close>, \<open>bool\<close>, \<open>int\<close>, \<open>float\<close>, \<open>str\<close>, \<open>list\<close> and \<open>dict\<close>
  with \<open>str\<close> keys. A dict keeps insertion order, so it is an association list (its keys
  distinct, lookup finds the entry of a key). A finite float is given by its value, the
  real number that the double stands for, together with its \<open>repr\<close>.
\<close>

datatype pyfloat = Fin real pystr | NaN | PosInf | NegInf

datatype json =
    JNull
  | JBool bool
  | JInt int
  | JFloat pyfloat
  | JStr pystr
  | JArr "json list"
  | JObj "(pystr \<times> json) list"

fun truthy :: "json \<Rightarrow> bool" where
  "truthy JNull = False"
| "truthy (JBool b) = b"
| "truthy (JInt i) = (i \<noteq> 0)"
| "truthy (JFloat (Fin r _)) = (r \<noteq> 0)"
| "truthy (JFloat _) = True"
| "truthy (JStr s) = (s \<noteq> [])"
| "truthy (JArr xs) = (xs \<noteq> [])"
| "truthy (JObj kvs) = (kvs \<noteq> [])"

definition py_or :: "json \<Rightarrow> json \<Rightarrow> json" where
  "py_or a b = (if truthy a then a else b)"

fun type_name :: "json \<Rightarrow> pystr" where
  "type_name JNull = S ''NoneType''"
| "type_name (JBool _) = S ''bool''"
| "type_name (JInt _) = S ''int''"
| "type_name (JFloat _) = S ''float''"
| "type_name (JStr _) = S ''str''"
| "type_name (JArr _) = S ''list''"
| "type_name (JObj _) = S ''dict''"

definition dict_get :: "(pystr \<times> json) list \<Rightarrow> pystr \<Rightarrow> json" where
  \<comment> \<open>\<open>d.get(k)\<close>\<close>
  "dict_get d k = (case map_of d k of None \<Rightarrow> JNull | Some v \<Rightarrow> v)"

definition dict_get_default :: "(pystr \<times> json) list \<Rightarrow> pystr \<Rightarrow> json \<Rightarrow> json" where
  \<comment> \<open>\<open>d.get(k, default)\<close>\<close>
  "dict_get_default d k dflt = (case map_of d k of None \<Rightarrow> dflt | Some v \<Rightarrow> v)"

definition has_key :: "(pystr \<times> json) list \<Rightarrow> pystr \<Rightarrow> bool" where
  \<comment> \<open>\<open>k in d\<close>\<close>
  "has_key d k \<longleftrightarrow> map_of d k \<noteq> None"

definition no_attr :: "json \<Rightarrow> pystr \<Rightarrow> pyerr" where
  \<comment> \<open>what \<open>x.name\<close> raises when the type of \<open>x\<close> has no such attribute\<close>
  "no_attr x name =
     AttributeError ([39] @ type_name x @ [39] @ S '' object has no attribute '' @ [39] @ name @ [39])"

fun float_str :: "pyfloat \<Rightarrow> pystr" where
  "float_str (Fin r t) = t"
| "float_str NaN = S ''nan''"
| "float_str PosInf = S ''inf''"
| "float_str NegInf = S ''-inf''"

fun py_repr :: "pylib \<Rightarrow> json \<Rightarrow> pystr" where
  "py_repr L JNull = S ''None''"
| "py_repr L (JBool b) = (if b then S ''True'' else S ''False'')"
| "py_repr L (JInt i) = py_str_int i"
| "py_repr L (JFloat f) = float_str f"
| "py_repr L (JStr s) = repr_str L s"
| "py_repr L (JArr xs) = S ''['' @ join (S '', '') (map (py_repr L) xs) @ S '']''"
| "py_repr L (JObj kvs) =
     S ''{'' @ join (S '', '') (map (\<lambda>(k, v). repr_str L k @ S '': '' @ py_repr L v) kvs) @ S ''}''"

definition py_str :: "pylib \<Rightarrow> json \<Rightarrow> pystr" where
  \<comment> \<open>\<open>str(x)\<close>, also what an f-string puts for \<open>{x}\<close>\<close>
  "py_str L x = (case x of JStr s \<Rightarrow> s | _ \<Rightarrow> py_repr L x)"

section \<open>The response summarizer\<close>

text \<open>
  \<open>summarize\<close> of \<open>main.py\<close> and of \<open>netlify/functions/query.py\<close>. The two differ in one
  literal (the prefix of the error line); the loops over databases, entries and fields
  are the same text in both files and are modelled once. \<open>parts\<close> is the list the
  source appends to.
\<close>

definition field_line :: "pylib \<Rightarrow> pystr \<Rightarrow> json \<Rightarrow> pystr" where
  "field_line L k v =
     (let s = py_str L v;
          s = (if length s > 200 then take 200 s @ ellipsis else s)
      in S ''  '' @ k @ S '': '' @ s)"

fun field_loop :: "pylib \<Rightarrow> pystr list \<Rightarrow> (pystr \<times> json) list \<Rightarrow> pystr list" where
  "field_loop L parts [] = parts"
| "field_loop L parts ((k, v) # rest) = field_loop L (parts @ [field_line L k v]) rest"

fun entry_loop :: "pylib \<Rightarrow> pystr list \<Rightarrow> nat \<Rightarrow> json list \<Rightarrow> pystr list" where
  \<comment> \<open>\<open>for i, entry in enumerate(..., i)\<close>\<close>
  "entry_loop L parts i [] = parts"
| "entry_loop L parts i (entry # rest) =
     (let parts = parts @ [S '' Entry '' @ dec_nat i @ S '':''];
          parts = (case entry of
                     JObj kvs \<Rightarrow> field_loop L parts kvs
                   | _ \<Rightarrow> parts @ [S ''  '' @ py_str L entry])
      in entry_loop L parts (Suc i) rest)"

fun py_len :: "json \<Rightarrow> pyerr + nat" where
  "py_len (JStr s) = Inr (length s)"
| "py_len (JArr xs) = Inr (length xs)"
| "py_len (JObj kvs) = Inr (length kvs)"
| "py_len x = Inl (TypeError (S ''object of type '' @ [39] @ type_name x @ [39] @ S '' has no len()''))"

fun first3 :: "json \<Rightarrow> pyerr + json list" where
  \<comment> \<open>the elements of \<open>data[:3]\<close>; a dict cannot be sliced (a \<open>TypeError\<close> up to
      CPython 3.11, a \<open>KeyError\<close> from 3.12 on: an exception either way)\<close>
  "first3 (JArr xs) = Inr (take 3 xs)"
| "first3 (JStr s) = Inr (map (\<lambda>c. JStr [c]) (take 3 s))"
| "first3 (JObj kvs) = Inl (TypeError (S ''unhashable type: '' @ [39] @ S ''slice'' @ [39]))"
| "first3 x = Inl (TypeError ([39] @ type_name x @ [39] @ S '' object is not subscriptable''))"

fun db_loop :: "pylib \<Rightarrow> pystr list \<Rightarrow> (pystr \<times> json) list \<Rightarrow> pyerr + pystr list" where
  "db_loop L parts [] = Inr parts"
| "db_loop L parts ((dbname, dbinfo) # rest) =
     (let parts = parts @ [S ''== '' @ dbname @ S '' ==''] in
      case dbinfo of
        JObj d \<Rightarrow>
          (let info_leak = py_or (dict_get d (S ''InfoLeak'')) (py_or (dict_get d (S ''info'')) (JStr []));
               parts = (if truthy info_leak then parts @ [S ''Summary: '' @ py_str L info_leak]
                        else parts);
               data = py_or (dict_get d (S ''Data'')) (JArr [])
           in case py_len data of
                Inl e \<Rightarrow> Inl e
              | Inr n \<Rightarrow>
                 (let parts = parts @ [S ''Entries: '' @ dec_nat n] in
                  case first3 data of
                    Inl e \<Rightarrow> Inl e
                  | Inr es \<Rightarrow>
                     (let parts = entry_loop L parts 1 es;
                          parts = (if n > 3
                                   then parts @ [S ''...and '' @ dec_nat (n - 3) @ S '' more entries'']
                                   else parts);
                          parts = parts @ [[]]
                      in db_loop L parts rest)))
      | _ \<Rightarrow> Inl (no_attr dbinfo (S ''get'')))"

definition fallback :: "pylib \<Rightarrow> json \<Rightarrow> pystr" where
  \<comment> \<open>\<open>textwrap.shorten(str(resp_json), width=2000, placeholder="\<dots>")\<close>\<close>
  "fallback L resp_json = shorten L (py_str L resp_json) 2000 ellipsis"

definition summarize_with :: "pystr \<Rightarrow> pylib \<Rightarrow> json \<Rightarrow> pyerr + pystr" where
  "summarize_with prefix L resp_json =
     (case resp_json of
        JObj d \<Rightarrow>
          if has_key d (S ''Error code'') then
            (let err = dict_get d (S ''Error code'');
                 msg = py_or (dict_get d (S ''Description'')) (py_or (dict_get d (S ''message'')) (JStr []))
             in Inr (prefix @ py_str L err @ S ''. '' @ py_str L msg))
          else
            (case map_of d (S ''List'') of
               Some (JObj dbs) \<Rightarrow>
                 (case db_loop L [] dbs of
                    Inl e \<Rightarrow> Inl e
                  | Inr parts \<Rightarrow> Inr (py_strip (join [10] parts)))
             | _ \<Rightarrow> Inr (fallback L resp_json))
      | _ \<Rightarrow> Inr (fallback L resp_json))"

definition summarize_main :: "pylib \<Rightarrow> json \<Rightarrow> pyerr + pystr" where
  \<comment> \<open>\<open>summarize\<close> of \<open>main.py\<close>\<close>
  "summarize_main = summarize_with (S ''API error: '')"

definition summarize_netlify :: "pylib \<Rightarrow> json \<Rightarrow> pyerr + pystr" where
  \<comment> \<open>\<open>summarize\<close> of \<open>netlify/functions/query.py\<close>\<close>
  "summarize_netlify = summarize_with (S ''API Error: '')"

definition example_lib :: pylib where
  \<comment> \<open>a library to run the worked examples with; they use short ASCII texts, and what
      they state does not depend on the choices made here\<close>
  "example_lib =
     \<lparr> shorten = (\<lambda>text width placeholder.
                    if length text \<le> width then text
                    else take (width - length placeholder) text @ placeholder),
       float_repr = (\<lambda>r. S ''0.0''),
       isprintable_uni = (\<lambda>c. False),
       isdigit_uni = (\<lambda>c. False),
       int_uni = (\<lambda>s. Inl (ValueError [])) \<rparr>"

definition description :: "(pystr \<times> json) list \<Rightarrow> json" where
  \<comment> \<open>the first of the fields \<open>Description\<close> and \<open>message\<close> that is present and not empty,
      the empty string when there is none\<close>
  "description d =
     (if truthy (dict_get d (S ''Description'')) then dict_get d (S ''Description'')
      else if truthy (dict_get d (S ''message'')) then dict_get d (S ''message'')
      else JStr [])"

definition err_obj :: "(pystr \<times> json) list" where
  \<comment> \<open>\<open>{"Error code": "ERR_TOKEN", "Description": "bad token"}\<close>\<close>
  "err_obj = [(S ''Error code'', JStr (S ''ERR_TOKEN'')), (S ''Description'', JStr (S ''bad token''))]"

subsection \<open>What the summarizer emits for a database, in the spec's words\<close>

definition data_list :: "(pystr \<times> json) list \<Rightarrow> json list" where
  \<comment> \<open>the \<open>Data\<close> sequence of a database, empty when the field is missing or null\<close>
  "data_list d = (case map_of d (S ''Data'') of Some (JArr xs) \<Rightarrow> xs | _ \<Rightarrow> [])"

fun db_object :: "json \<Rightarrow> bool" where
  \<comment> \<open>a database object: an object whose \<open>Data\<close> is missing, null or a sequence\<close>
  "db_object (JObj d) =
     (case map_of d (S ''Data'') of None \<Rightarrow> True | Some JNull \<Rightarrow> True | Some (JArr xs) \<Rightarrow> True
      | Some _ \<Rightarrow> False)"
| "db_object _ = False"

definition summary_lines :: "pylib \<Rightarrow> (pystr \<times> json) list \<Rightarrow> pystr list" where
  "summary_lines L d =
     (if truthy (dict_get d (S ''InfoLeak''))
      then [S ''Summary: '' @ py_str L (dict_get d (S ''InfoLeak''))]
      else if truthy (dict_get d (S ''info''))
      then [S ''Summary: '' @ py_str L (dict_get d (S ''info''))]
      else [])"

definition entry_block :: "pylib \<Rightarrow> nat \<Rightarrow> json \<Rightarrow> pystr list" where
  "entry_block L i entry =
     (S '' Entry '' @ dec_nat i @ S '':'') #
     (case entry of JObj kvs \<Rightarrow> map (\<lambda>(k, v). field_line L k v) kvs
      | _ \<Rightarrow> [S ''  '' @ py_str L entry])"

definition entry_blocks :: "pylib \<Rightarrow> nat \<Rightarrow> json list \<Rightarrow> pystr list" where
  \<comment> \<open>the blocks of the entries \<open>es\<close>, numbered from \<open>i\<close>\<close>
  "entry_blocks L i es = concat (map (\<lambda>(j, e). entry_block L j e) (zip [i..<i + length es] es))"

definition db_block :: "pylib \<Rightarrow> pystr \<Rightarrow> (pystr \<times> json) list \<Rightarrow> pystr list" where
  \<comment> \<open>header, optional summary, entry count, the blocks of the first three entries,
      the line for the rest when there are more than three, and the blank separator\<close>
  "db_block L dbname d =
     (let data = data_list d; n = length data in
      [S ''== '' @ dbname @ S '' ==''] @ summary_lines L d @ [S ''Entries: '' @ dec_nat n]
      @ entry_blocks L 1 (take 3 data)
      @ (if n > 3 then [S ''...and '' @ dec_nat (n - 3) @ S '' more entries''] else [])
      @ [[]])"

definition db_blocks :: "pylib \<Rightarrow> (pystr \<times> json) list \<Rightarrow> pystr list" where
  "db_blocks L dbs =
     concat (map (\<lambda>(dbname, dbinfo). case dbinfo of JObj d \<Rightarrow> db_block L dbname d | _ \<Rightarrow> []) dbs)"

definition db1_data :: json where
  \<comment> \<open>\<open>[{"a":"1"},{"a":"2"},{"a":"3"},{"a":"4"}]\<close>\<close>
  "db1_data = JArr [JObj [(S ''a'', JStr (S ''1''))], JObj [(S ''a'', JStr (S ''2''))],
                    JObj [(S ''a'', JStr (S ''3''))], JObj [(S ''a'', JStr (S ''4''))]]"

definition db1_dbs :: "(pystr \<times> json) list" where
  \<comment> \<open>\<open>{"DB1": {"InfoLeak": "desc", "Data": [...]}}\<close>\<close>
  "db1_dbs = [(S ''DB1'', JObj [(S ''InfoLeak'', JStr (S ''desc'')), (S ''Data'', db1_data)])]"

definition db1_obj :: "(pystr \<times> json) list" where
  "db1_obj = [(S ''List'', JObj db1_dbs)]"

definition db1_text :: pystr where
  "db1_text = join [10]
     [S ''== DB1 =='', S ''Summary: desc'', S ''Entries: 4'',
      S '' Entry 1:'', S ''  a: 1'', S '' Entry 2:'', S ''  a: 2'', S '' Entry 3:'', S ''  a: 3'',
      S ''...and 1 more entries'']"

definition nodata_dbs :: "(pystr \<times> json) list" where
  \<comment> \<open>\<open>{"A": {"info": "x", "Data": null}, "DB1": {...}}\<close>\<close>
  "nodata_dbs = (S ''A'', JObj [(S ''info'', JStr (S ''x'')), (S ''Data'', JNull)]) # db1_dbs"

definition nodata_text :: pystr where
  "nodata_text = join [10] [S ''== A =='', S ''Summary: x'', S ''Entries: 0'', [], db1_text]"

section \<open>Conversions and serialisation\<close>

definition py_isdigit_char :: "pylib \<Rightarrow> nat \<Rightarrow> bool" where
  "py_isdigit_char L c = (if c < 128 then 48 \<le> c \<and> c \<le> 57 else isdigit_uni L c)"

definition py_isdigit :: "pylib \<Rightarrow> pystr \<Rightarrow> bool" where
  \<comment> \<open>\<open>s.isdigit()\<close>: not empty, and every character a digit\<close>
  "py_isdigit L s \<longleftrightarrow> s \<noteq> [] \<and> list_all (py_isdigit_char L) s"

fun contains :: "pystr \<Rightarrow> pystr \<Rightarrow> bool" where
  \<comment> \<open>\<open>t in s\<close> for two strings\<close>
  "contains [] t = (t = [])"
| "contains (c # cs) t = (take (length t) (c # cs) = t \<or> contains cs t)"

fun int_digits :: "bool \<Rightarrow> int \<Rightarrow> pystr \<Rightarrow> int option" where
  \<comment> \<open>decimal digits, a single underscore allowed between two digits\<close>
  "int_digits prev acc [] = (if prev then Some acc else None)"
| "int_digits prev acc (c # cs) =
     (if 48 \<le> c \<and> c \<le> 57 then int_digits True (acc * 10 + int (c - 48)) cs
      else if c = 95 \<and> prev \<and> (case cs of [] \<Rightarrow> False | d # _ \<Rightarrow> 48 \<le> d \<and> d \<le> 57)
      then int_digits False acc cs
      else None)"

definition int_isspace :: "nat \<Rightarrow> bool" where
  \<comment> \<open>what \<open>int\<close> skips around an ASCII literal: tab, LF, VT, FF, CR and the space\<close>
  "int_isspace c \<longleftrightarrow> (9 \<le> c \<and> c \<le> 13) \<or> c = 32"

definition int_literal :: "pystr \<Rightarrow> int option" where
  \<comment> \<open>an ASCII literal as \<open>int\<close> reads it in base 10: whitespace around, an optional sign, digits\<close>
  "int_literal s =
     (case rev (dropWhile int_isspace (rev (dropWhile int_isspace s))) of
        [] \<Rightarrow> None
      | c # cs \<Rightarrow>
          if c = 45 then map_option uminus (int_digits False 0 cs)
          else if c = 43 then int_digits False 0 cs
          else int_digits False 0 (c # cs))"

definition int_of_str :: "pylib \<Rightarrow> pystr \<Rightarrow> pyerr + int" where
  \<comment> \<open>\<open>int(s)\<close>; a string with a character beyond ASCII, or too long for the interpreter's
      limit on digits, is read by the library. The message of the error has the \<open>repr\<close> of
      the string, cut at 200 characters\<close>
  "int_of_str L s =
     (if (\<exists>c \<in> set s. 128 \<le> c) \<or> 4300 < length s
      then int_uni L s
      else (case int_literal s of
              Some i \<Rightarrow> Inr i
            | None \<Rightarrow> Inl (ValueError (S ''invalid literal for int() with base 10: ''
                                       @ take 200 (repr_str L s)))))"

definition int_type_error :: "json \<Rightarrow> pyerr" where
  "int_type_error x =
     TypeError (S ''int() argument must be a string, a bytes-like object or a real number, not ''
                @ [39] @ type_name x @ [39])"

fun py_int :: "pylib \<Rightarrow> json \<Rightarrow> pyerr + int" where
  \<comment> \<open>\<open>int(x)\<close>\<close>
  "py_int L (JInt i) = Inr i"
| "py_int L (JBool b) = Inr (if b then 1 else 0)"
| "py_int L (JFloat (Fin r t)) = Inr (if 0 \<le> r then \<lfloor>r\<rfloor> else \<lceil>r\<rceil>)"
| "py_int L (JFloat NaN) = Inl (ValueError (S ''cannot convert float NaN to integer''))"
| "py_int L (JFloat PosInf) = Inl (OverflowError (S ''cannot convert float infinity to integer''))"
| "py_int L (JFloat NegInf) = Inl (OverflowError (S ''cannot convert float infinity to integer''))"
| "py_int L (JStr s) = int_of_str L s"
| "py_int L x = Inl (int_type_error x)"

fun err_str :: "pyerr \<Rightarrow> pystr" where
  \<comment> \<open>\<open>str(e)\<close>\<close>
  "err_str (AttributeError m) = m"
| "err_str (TypeError m) = m"
| "err_str (ValueError m) = m"
| "err_str (OverflowError m) = m"
| "err_str (HTTPError m) = m"
| "err_str (RequestException m) = m"
| "err_str (JSONDecodeError m) = m"
| "err_str (HTTPException status detail) = dec_nat status @ S '': '' @ detail"

definition dumps_char :: "nat \<Rightarrow> pystr" where
  "dumps_char c =
     (if c = 34 then [92, 34]
      else if c = 92 then [92, 92]
      else if c = 10 then [92, 110]
      else if c = 13 then [92, 114]
      else if c = 9 then [92, 116]
      else if c = 8 then [92, 98]
      else if c = 12 then [92, 102]
      else if c < 32 then [92, 117] @ hexn (Suc (Suc (Suc (Suc 0)))) c
      else [c])"

definition dumps_str :: "pystr \<Rightarrow> pystr" where
  "dumps_str s = [34] @ concat (map dumps_char s) @ [34]"

fun float_json :: "pyfloat \<Rightarrow> pystr" where
  "float_json (Fin r t) = t"
| "float_json NaN = S ''NaN''"
| "float_json PosInf = S ''Infinity''"
| "float_json NegInf = S ''-Infinity''"

fun py_dumps :: "json \<Rightarrow> pystr" where
  \<comment> \<open>\<open>json.dumps(x, ensure_ascii=False)\<close>\<close>
  "py_dumps JNull = S ''null''"
| "py_dumps (JBool b) = (if b then S ''true'' else S ''false'')"
| "py_dumps (JInt i) = py_str_int i"
| "py_dumps (JFloat f) = float_json f"
| "py_dumps (JStr s) = dumps_str s"
| "py_dumps (JArr xs) = S ''['' @ join (S '', '') (map py_dumps xs) @ S '']''"
| "py_dumps (JObj kvs) =
     S ''{'' @ join (S '', '') (map (\<lambda>(k, v). dumps_str k @ S '': '' @ py_dumps v) kvs) @ S ''}''"

fun dict_set :: "(pystr \<times> json) list \<Rightarrow> pystr \<Rightarrow> json \<Rightarrow> (pystr \<times> json) list" where
  \<comment> \<open>\<open>d[k] = v\<close>: in place when the key is there, at the end otherwise\<close>
  "dict_set [] k v = [(k, v)]"
| "dict_set ((k', v') # d) k v = (if k' = k then (k, v) # d else (k', v') # dict_set d k v)"

section \<open>The upstream call\<close>

text \<open>
  \<open>requests.post\<close> either raises a \<open>RequestException\<close> (connection error, timeout: the
  text is \<open>str(e)\<close>) or returns a response. A response is given with what \<open>resp.json()\<close>
  makes of its body: the parsed value, or the message of the decoding error. What the
  upstream does is an input of every handler; the payloads a handler posts are part of
  its result.
\<close>

record reply =
  status_code :: nat
  reason :: pystr
  url :: pystr
  resp_text :: pystr
  parsed :: "pystr + json"

datatype upstream = Failed pystr | Replied reply

record 'r run =
  posted :: "(pystr \<times> json) list list"
  outcome :: 'r

definition API_URL :: pystr where
  "API_URL = S ''https://leakosintapi.com/''"

definition reply_ok :: "reply \<Rightarrow> bool" where
  \<comment> \<open>\<open>resp.ok\<close>: \<open>raise_for_status()\<close> does not raise\<close>
  "reply_ok r \<longleftrightarrow> \<not> (400 \<le> status_code r \<and> status_code r < 600)"

definition http_error_msg :: "reply \<Rightarrow> pystr" where
  \<comment> \<open>the message of the \<open>HTTPError\<close> that \<open>raise_for_status()\<close> raises\<close>
  "http_error_msg r =
     dec_nat (status_code r)
     @ (if status_code r < 500 then S '' Client Error: '' else S '' Server Error: '')
     @ reason r @ S '' for url: '' @ url r"

section \<open>The cost-aware variant: \<open>app.py\<close>\<close>

text \<open>
  A float of Python is an IEEE double, and a computed float is given by its value. Each
  operation of the estimator (the conversion of an int, the square root, the sum, the
  quotient, \<open>round\<close>) gives the exact result rounded to the nearest double, a tie to
  the even significand: \<open>to_double\<close>, for a significand of 53 bits. The values that
  the estimator computes lie in the range of the normal doubles, where this is all of the
  rounding.
\<close>

definition round_half_even :: "real \<Rightarrow> int" where
  "round_half_even y =
     (let f = \<lfloor>y\<rfloor>; d = y - of_int f
      in if d < 1 / 2 then f else if 1 / 2 < d then f + 1 else if even f then f else f + 1)"

definition ulp :: "real \<Rightarrow> real" where
  \<comment> \<open>the distance between the doubles around \<open>x\<close>\<close>
  "ulp x = 2 powr (of_int \<lfloor>log 2 \<bar>x\<bar>\<rfloor> - 52)"

definition to_double :: "real \<Rightarrow> real" where
  "to_double x = (if x = 0 then 0 else of_int (round_half_even (x / ulp x)) * ulp x)"

definition float_limit :: int where
  \<comment> \<open>the integers of this magnitude and beyond do not convert to a float\<close>
  "float_limit = 2 ^ 1024 - 2 ^ 970"

definition math_sqrt :: "int \<Rightarrow> pyerr + real" where
  \<comment> \<open>\<open>math.sqrt\<close> of an int: the int is converted to a float first\<close>
  "math_sqrt x =
     (if float_limit \<le> \<bar>x\<bar> then Inl (OverflowError (S ''int too large to convert to float''))
      else if x < 0 then Inl (ValueError (S ''math domain error''))
      else Inr (to_double (sqrt (to_double (real_of_int x)))))"

definition calculate_cost :: "pylib \<Rightarrow> int \<Rightarrow> pystr \<Rightarrow> pyerr + real" where
  "calculate_cost L limit query =
     (let words = filter (\<lambda>word. length word \<ge> 4 \<and> \<not> py_isdigit L word) (py_split query);
          word_count = length words;
          complexity = (if word_count = 1 then 1
                        else if word_count = 2 then 5
                        else if word_count = 3 then 16
                        else 40)
      in case math_sqrt (limit * complexity) of
           Inl e \<Rightarrow> Inl e
         | Inr r \<Rightarrow> Inr (to_double (to_double (5 + r) / 5000)))"

definition round6 :: "real \<Rightarrow> real" where
  \<comment> \<open>\<open>round(x, 6)\<close>: the double nearest to the nearest multiple of \<open>10\<^sup>-\<^sup>6\<close>, a tie
      between two multiples to the even one\<close>
  "round6 x = to_double (of_int (round_half_even (x * 1000000)) / 1000000)"

fun in_List :: "json \<Rightarrow> pyerr + bool" where
  \<comment> \<open>\<open>"List" in result\<close>\<close>
  "in_List (JObj d) = Inr (has_key d (S ''List''))"
| "in_List (JArr xs) = Inr (JStr (S ''List'') \<in> set xs)"
| "in_List (JStr s) = Inr (contains s (S ''List''))"
| "in_List x = Inl (TypeError (S ''argument of type '' @ [39] @ type_name x @ [39] @ S '' is not iterable''))"

fun add_cost :: "pylib \<Rightarrow> real \<Rightarrow> json \<Rightarrow> pyerr + json" where
  \<comment> \<open>the two assignments \<open>result["cost"] = ...\<close> and \<open>result["balance_impact"] = ...\<close>\<close>
  "add_cost L cost (JObj d) =
     (let c = Fin (round6 cost) (float_repr L (round6 cost));
          d = dict_set d (S ''cost'') (JFloat c);
          d = dict_set d (S ''balance_impact'') (JStr (S ''$'' @ float_str c @ S '' will be deducted''))
      in Inr (JObj d))"
| "add_cost L cost (JArr xs) = Inl (TypeError (S ''list indices must be integers or slices, not str''))"
| "add_cost L cost x =
     Inl (TypeError ([39] @ type_name x @ [39] @ S '' object does not support item assignment''))"

definition error_body :: "pystr \<Rightarrow> json" where
  "error_body m = JObj [(S ''error'', JStr m)]"

definition search_try :: "pylib \<Rightarrow> real \<Rightarrow> upstream \<Rightarrow> nat \<times> json" where
  \<comment> \<open>the \<open>try\<close> block of \<open>search\<close>, after the POST: every exception gives a 500\<close>
  "search_try L cost up =
     (case up of
        Failed m \<Rightarrow> (500, error_body m)
      | Replied response \<Rightarrow>
          (case parsed response of
             Inl m \<Rightarrow> (500, error_body m)
           | Inr result \<Rightarrow>
               (case in_List result of
                  Inl e \<Rightarrow> (500, error_body (err_str e))
                | Inr True \<Rightarrow>
                    (case add_cost L cost result of
                       Inl e \<Rightarrow> (500, error_body (err_str e))
                     | Inr result' \<Rightarrow> (200, result'))
                | Inr False \<Rightarrow> (200, result))))"

definition search :: "pylib \<Rightarrow> pystr \<Rightarrow> json \<Rightarrow> upstream \<Rightarrow> (pyerr + nat \<times> json) run" where
  \<comment> \<open>\<open>data\<close> is \<open>request.json\<close>; \<open>Inl\<close> is an exception that leaves the function\<close>
  "search L API_TOKEN data up =
     (case data of
        JObj d \<Rightarrow>
          (let query = dict_get d (S ''query'') in
           case py_int L (dict_get_default d (S ''limit'') (JInt 100)) of
             Inl e \<Rightarrow> \<lparr>posted = [], outcome = Inl e\<rparr>
           | Inr n \<Rightarrow>
              (let limit = min n 10000;
                   lang = dict_get_default d (S ''lang'') (JStr (S ''en''))
               in if \<not> truthy query
                  then \<lparr>posted = [], outcome = Inr (400, error_body (S ''Query parameter is required''))\<rparr>
                  else
                    (case (case query of JStr q \<Rightarrow> calculate_cost L limit q
                           | _ \<Rightarrow> Inl (no_attr query (S ''split''))) of
                       Inl e \<Rightarrow> \<lparr>posted = [], outcome = Inl e\<rparr>
                     | Inr cost \<Rightarrow>
                        (let payload = [(S ''token'', JStr API_TOKEN), (S ''request'', query),
                                        (S ''limit'', JInt limit), (S ''lang'', lang)]
                         in \<lparr>posted = [payload], outcome = Inr (search_try L cost up)\<rparr>))))
      | _ \<Rightarrow> \<lparr>posted = [], outcome = Inl (no_attr data (S ''get''))\<rparr>)"

section \<open>The FastAPI variant: \<open>main.py\<close>\<close>

record QueryPayload =
  q_query :: pystr
  q_limit :: int
  q_lang :: pystr
  q_type :: pystr

definition call_leak_api ::
    "pystr \<Rightarrow> pystr \<Rightarrow> int \<Rightarrow> pystr \<Rightarrow> pystr \<Rightarrow> upstream \<Rightarrow> (pyerr + json) run" where
  \<comment> \<open>a body that is not JSON makes \<open>resp.json()\<close> raise the decoding error of \<open>requests\<close>\<close>
  "call_leak_api API_TOKEN query limit lang out_type up =
     (let payload = [(S ''token'', JStr API_TOKEN), (S ''request'', JStr query),
                     (S ''limit'', JInt limit), (S ''lang'', JStr lang), (S ''type'', JStr out_type)]
      in \<lparr>posted = [payload],
          outcome = (case up of
                      Failed m \<Rightarrow> Inl (RequestException m)
                    | Replied resp \<Rightarrow>
                        if \<not> reply_ok resp then Inl (HTTPError (http_error_msg resp))
                        else (case parsed resp of
                                Inl m \<Rightarrow> Inl (JSONDecodeError m)
                              | Inr j \<Rightarrow> Inr j))\<rparr>)"

definition query :: "pylib \<Rightarrow> pystr \<Rightarrow> QueryPayload \<Rightarrow> upstream \<Rightarrow> (pyerr + json) run" where
  \<comment> \<open>\<open>HTTPError\<close> and the decoding error are subclasses of \<open>RequestException\<close>, and the
      clause for \<open>HTTPError\<close> comes first; an exception of \<open>summarize\<close> is not caught\<close>
  "query L API_TOKEN payload up =
     (let r = call_leak_api API_TOKEN (q_query payload) (q_limit payload) (q_lang payload)
                (q_type payload) up
      in \<lparr>posted = posted r,
          outcome = (case outcome r of
                      Inl (HTTPError m) \<Rightarrow> Inl (HTTPException 502 (S ''Upstream HTTP error: '' @ m))
                    | Inl e \<Rightarrow> Inl (HTTPException 502 (S ''Upstream request failed: '' @ err_str e))
                    | Inr raw \<Rightarrow>
                        (case summarize_main L raw of
                           Inl e \<Rightarrow> Inl e
                         | Inr summary \<Rightarrow> Inr (JObj [(S ''raw'', raw), (S ''summary'', JStr summary)])))\<rparr>)"

section \<open>The serverless variant: \<open>netlify/functions/query.py\<close>\<close>

record event =
  httpMethod :: "pystr option"
  ev_body :: "pystr option"
  loaded :: "json option"

record env =
  ALLOWED_ORIGINS :: "pystr option"
  LEAK_API_TOKEN :: "pystr option"

record response =
  statusCode :: nat
  headers :: "(pystr \<times> pystr) list"
  body :: pystr

definition make_response :: "nat \<Rightarrow> json \<Rightarrow> pystr option \<Rightarrow> response" where
  "make_response status body_obj origin =
     \<lparr>statusCode = status,
      headers = [(S ''Content-Type'', S ''application/json''),
                 (S ''Access-Control-Allow-Origin'',
                    (case origin of None \<Rightarrow> S ''*'' | Some o' \<Rightarrow> if o' \<noteq> [] then o' else S ''*'')),
                 (S ''Access-Control-Allow-Methods'', S ''GET, POST, OPTIONS''),
                 (S ''Access-Control-Allow-Headers'', S ''Content-Type, Authorization'')],
      body = py_dumps body_obj\<rparr>"

definition getenv :: "pystr option \<Rightarrow> pystr" where
  \<comment> \<open>\<open>os.getenv(name, "")\<close>\<close>
  "getenv v = (case v of None \<Rightarrow> [] | Some s \<Rightarrow> s)"

definition first_of :: "pystr \<Rightarrow> pystr" where
  \<comment> \<open>\<open>s.split(",")[0].strip()\<close>\<close>
  "first_of s = py_strip (takeWhile (\<lambda>c. c \<noteq> 44) s)"

definition truncated :: "pystr \<Rightarrow> pystr" where
  \<comment> \<open>\<open>text if len(text) <= 1000 else text[:1000] + "\<dots>"\<close>\<close>
  "truncated t = (if length t \<le> 1000 then t else take 1000 t @ ellipsis)"

definition after_post :: "pylib \<Rightarrow> pystr option \<Rightarrow> upstream \<Rightarrow> pyerr + response" where
  \<comment> \<open>lines 119 to 139: what the handler makes of the upstream's answer\<close>
  "after_post L allowed_origin up =
     (case up of
        Failed m \<Rightarrow>
          Inr (make_response 502
                 (JObj [(S ''error'', JStr (S ''Upstream request failed'')), (S ''detail'', JStr m)])
                 allowed_origin)
      | Replied resp \<Rightarrow>
          if \<not> reply_ok resp then
            Inr (make_response 502
                   (JObj [(S ''error'', JStr (S ''Upstream returned non-200'')),
                          (S ''status_code'', JInt (int (status_code resp))),
                          (S ''text'', JStr (truncated (resp_text resp)))])
                   allowed_origin)
          else
            (case parsed resp of
               Inl m \<Rightarrow>
                 Inr (make_response 200
                        (JObj [(S ''raw'', JStr (resp_text resp)),
                               (S ''summary'', JStr (shorten L (resp_text resp) 2000 (S '' [...]'')))])
                        allowed_origin)
             | Inr resp_json \<Rightarrow>
                 (case summarize_netlify L resp_json of
                    Inl e \<Rightarrow> Inl e
                  | Inr summary \<Rightarrow>
                      Inr (make_response 200
                             (JObj [(S ''raw'', resp_json), (S ''summary'', JStr summary)])
                             allowed_origin))))"

definition handler_try :: "pylib \<Rightarrow> env \<Rightarrow> event \<Rightarrow> upstream \<Rightarrow> (pyerr + response) run" where
  \<comment> \<open>the body of the outer \<open>try\<close>; \<open>loaded\<close> is \<open>json.loads(raw_body)\<close>, which fails on
      the empty string\<close>
  "handler_try L E ev up =
     (if httpMethod ev = Some (S ''OPTIONS'')
      then \<lparr>posted = [], outcome = Inr (make_response 200 (JObj [(S ''ok'', JBool True)]) None)\<rparr>
      else
       (let allowed_origins = py_strip (getenv (ALLOWED_ORIGINS E));
            allowed_origin = (if allowed_origins \<noteq> [] then Some (first_of allowed_origins) else None);
            token = getenv (LEAK_API_TOKEN E)
        in if token = []
           then \<lparr>posted = [],
                 outcome = Inr (make_response 500
                                 (error_body (S ''Server misconfiguration: missing LEAK_API_TOKEN''))
                                 allowed_origin)\<rparr>
           else
            (let raw_body = getenv (ev_body ev) in
             case (if raw_body = [] then None else loaded ev) of
               None \<Rightarrow>
                 \<lparr>posted = [],
                   outcome = Inr (make_response 400
                                   (error_body (S ''Invalid JSON. Expected application/json with ''
                                                @ [39] @ S ''query'' @ [39] @ S '' field.''))
                                   allowed_origin)\<rparr>
             | Some (JObj d) \<Rightarrow>
                 (let query = py_or (dict_get d (S ''query'')) (dict_get d (S ''request'')) in
                  if \<not> truthy query
                  then \<lparr>posted = [],
                        outcome = Inr (make_response 400
                                        (error_body (S ''Missing '' @ [39] @ S ''query'' @ [39]
                                                     @ S '' field in request body.''))
                                        allowed_origin)\<rparr>
                  else
                   (case py_int L (dict_get_default d (S ''limit'') (JInt 100)) of
                      Inl e \<Rightarrow> \<lparr>posted = [], outcome = Inl e\<rparr>
                    | Inr limit \<Rightarrow>
                       (let lang = dict_get_default d (S ''lang'') (JStr (S ''en''));
                            out_type = dict_get_default d (S ''type'') (JStr (S ''json''));
                            upstream_payload =
                              [(S ''token'', JStr token), (S ''request'', JStr (py_str L query)),
                               (S ''limit'', JInt limit), (S ''lang'', lang), (S ''type'', out_type)]
                        in \<lparr>posted = [upstream_payload],
                             outcome = after_post L allowed_origin up\<rparr>)))
             | Some payload \<Rightarrow> \<lparr>posted = [], outcome = Inl (no_attr payload (S ''get''))\<rparr>)))"

definition handler :: "pylib \<Rightarrow> env \<Rightarrow> event \<Rightarrow> upstream \<Rightarrow> response run" where
  \<comment> \<open>the catch-all \<open>except Exception\<close> turns what is left into a 500\<close>
  "handler L E ev up =
     (let r = handler_try L E ev up
      in \<lparr>posted = posted r,
          outcome = (case outcome r of
                      Inr resp \<Rightarrow> resp
                    | Inl e \<Rightarrow>
                        make_response 500
                          (JObj [(S ''error'', JStr (S ''Internal server error'')),
                                 (S ''detail'', JStr (err_str e))])
                          (Some (if py_strip (getenv (ALLOWED_ORIGINS E)) \<noteq> []
                                 then first_of (getenv (ALLOWED_ORIGINS E)) else S ''*'')))\<rparr>)"

subsection \<open>The cost formula, in the spec's words\<close>

definition word_count :: "pylib \<Rightarrow> pystr \<Rightarrow> nat" where
  \<comment> \<open>the whitespace-separated tokens of length at least 4 that are not purely numeric\<close>
  "word_count L q = length (filter (\<lambda>w. 4 \<le> length w \<and> \<not> py_isdigit L w) (py_split q))"

definition complexity_of :: "nat \<Rightarrow> int" where
  "complexity_of n = (if n = 1 then 1 else if n = 2 then 5 else if n = 3 then 16 else 40)"

definition double_cost :: "int \<Rightarrow> real" where
  \<comment> \<open>\<open>(5 + sqrt(n)) / 5000\<close> in the arithmetic of doubles\<close>
  "double_cost n = to_double (to_double (5 + to_double (sqrt (to_double (of_int n)))) / 5000)"

subsection \<open>Requests that the serverless handler forwards\<close>

definition allowed_origin :: "env \<Rightarrow> pystr option" where
  \<comment> \<open>the origin the handler answers with, from \<open>ALLOWED_ORIGINS\<close>\<close>
  "allowed_origin E =
     (if py_strip (getenv (ALLOWED_ORIGINS E)) \<noteq> []
      then Some (first_of (py_strip (getenv (ALLOWED_ORIGINS E)))) else None)"

definition request_object :: "event \<Rightarrow> (pystr \<times> json) list option" where
  \<comment> \<open>the JSON object in the body of the event, when there is one\<close>
  "request_object ev =
     (if getenv (ev_body ev) = [] then None
      else case loaded ev of Some (JObj d) \<Rightarrow> Some d | _ \<Rightarrow> None)"

definition reaches_post :: "pylib \<Rightarrow> env \<Rightarrow> event \<Rightarrow> bool" where
  \<comment> \<open>the request passes the checks before the POST: not a preflight, the token is
      configured, the body is an object with a query, and its limit converts to an int\<close>
  "reaches_post L E ev \<longleftrightarrow>
     httpMethod ev \<noteq> Some (S ''OPTIONS'') \<and> getenv (LEAK_API_TOKEN E) \<noteq> [] \<and>
     (case request_object ev of
        None \<Rightarrow> False
      | Some d \<Rightarrow> truthy (py_or (dict_get d (S ''query'')) (dict_get d (S ''request'')))
                  \<and> \<not> isl (py_int L (dict_get_default d (S ''limit'') (JInt 100))))"

definition mk_event :: "pystr \<Rightarrow> json \<Rightarrow> event" where
  \<comment> \<open>the event of a request whose body is the JSON text of \<open>j\<close>\<close>
  "mk_event method j = \<lparr>httpMethod = Some method, ev_body = Some (py_dumps j), loaded = Some j\<rparr>"

definition env0 :: env where
  "env0 = \<lparr>ALLOWED_ORIGINS = None, LEAK_API_TOKEN = Some (S ''5844553333:b063s6yM'')\<rparr>"

definition ev_x :: event where
  "ev_x = mk_event (S ''POST'') (JObj [(S ''query'', JStr (S ''x''))])"

definition decode_msg :: pystr where
  "decode_msg = S ''Expecting value: line 1 column 1 (char 0)''"

definition long_reply :: reply where
  "long_reply = \<lparr>status_code = 503, reason = S ''Service Unavailable'', url = API_URL,
                   resp_text = replicate 1001 97, parsed = Inl decode_msg\<rparr>"

definition short_reply :: reply where
  "short_reply = \<lparr>status_code = 404, reason = S ''Not Found'', url = API_URL,
                   resp_text = S ''oops'', parsed = Inl decode_msg\<rparr>"

definition html_reply :: reply where
  "html_reply = \<lparr>status_code = 200, reason = S ''OK'', url = API_URL,
                   resp_text = S ''<html>upstream down</html>'', parsed = Inl decode_msg\<rparr>"

definition payload_x :: QueryPayload where
  "payload_x = \<lparr>q_query = S ''x'', q_limit = 100, q_lang = S ''en'', q_type = S ''json''\<rparr>"

subsection \<open>Worked requests\<close>

definition token0 :: pystr where
  "token0 = S ''5844553333:b063s6yM''"

definition timed_out :: upstream where
  "timed_out = Failed (S ''Read timed out. (read timeout=30)'')"

definition ev_big :: event where
  \<comment> \<open>\<open>{"query": "x", "limit": 20000}\<close>\<close>
  "ev_big = mk_event (S ''POST'') (JObj [(S ''query'', JStr (S ''x'')), (S ''limit'', JInt 20000)])"



subsection \<open>The cost fields, in the spec's words\<close>

definition request_cost :: "pylib \<Rightarrow> json \<Rightarrow> real option" where
  \<comment> \<open>the cost of a request that \<open>search\<close> forwards: the body is an object, its limit
      converts, its query is a non-empty string and the estimator returns\<close>
  "request_cost L data =
     (case data of
        JObj d \<Rightarrow>
          (case py_int L (dict_get_default d (S ''limit'') (JInt 100)) of
             Inl e \<Rightarrow> None
           | Inr n \<Rightarrow>
               (case dict_get d (S ''query'') of
                  JStr q \<Rightarrow>
                    if q = [] then None
                    else (case calculate_cost L (min n 10000) q of Inl e \<Rightarrow> None | Inr c \<Rightarrow> Some c)
                | _ \<Rightarrow> None))
      | _ \<Rightarrow> None)"

definition cost_value :: "pylib \<Rightarrow> real \<Rightarrow> pyfloat" where
  \<comment> \<open>the cost rounded to 6 decimal places, as a float\<close>
  "cost_value L c = Fin (round6 c) (float_repr L (round6 c))"

definition with_cost :: "pylib \<Rightarrow> real \<Rightarrow> (pystr \<times> json) list \<Rightarrow> (pystr \<times> json) list" where
  \<comment> \<open>the object with the fields \<open>cost\<close> and \<open>balance_impact\<close> set\<close>
  "with_cost L c u =
     dict_set (dict_set u (S ''cost'') (JFloat (cost_value L c))) (S ''balance_impact'')
       (JStr (S ''$'' @ float_str (cost_value L c) @ S '' will be deducted''))"

definition data_password :: json where
  \<comment> \<open>\<open>{"query": "password"}\<close>\<close>
  "data_password = JObj [(S ''query'', JStr (S ''password''))]"

definition list_reply :: reply where
  \<comment> \<open>a reply whose body is the spec's example with the database \<open>DB1\<close>\<close>
  "list_reply = \<lparr>status_code = 200, reason = S ''OK'', url = API_URL,
                  resp_text = py_dumps (JObj db1_obj), parsed = Inr (JObj db1_obj)\<rparr>"

definition priced_obj :: "(pystr \<times> json) list" where
  \<comment> \<open>\<open>{"List": {}, "cost": "free"}\<close>\<close>
  "priced_obj = [(S ''List'', JObj []), (S ''cost'', JStr (S ''free''))]"

definition priced_reply :: reply where
  "priced_reply = \<lparr>status_code = 200, reason = S ''OK'', url = API_URL,
                    resp_text = py_dumps (JObj priced_obj), parsed = Inr (JObj priced_obj)\<rparr>"

definition ev_tok :: event where
  \<comment> \<open>\<open>{"query": "x", "limit": "5844553333:b063s6yM"}\<close>: the limit is not a number\<close>
  "ev_tok = mk_event (S ''POST'')
              (JObj [(S ''query'', JStr (S ''x'')), (S ''limit'', JStr (S ''5844553333:b063s6yM''))])"

definition untoken :: "(pystr \<times> json) list \<Rightarrow> (pystr \<times> json) list" where
  \<comment> \<open>a posted payload without its \<open>token\<close> field\<close>
  "untoken p = filter (\<lambda>(k, v). k \<noteq> S ''token'') p"

section \<open>Properties\<close>

lemma dec_small: "n < 10 \<Longrightarrow> dec_nat n = [48 + n]"
  by (simp add: dec_nat.simps)

subsection \<open>The error line of the summarizer\<close>

text \<open>
  The error line of each variant. On an object with an \<open>Error code\<close> field the
  summarizer of \<open>main.py\<close> returns \<open>API error: <code>. <description>\<close> and the
  summarizer of \<open>netlify/functions/query.py\<close> returns the same with the prefix
  \<open>API Error: \<close>, where the description is the first of \<open>Description\<close> and
  \<open>message\<close> that is present and not empty, and is empty when there is none.
\<close>

theorem summarize_error_line:
  assumes "map_of d (S ''Error code'') = Some code"
  shows "summarize_main L (JObj d) =
           Inr (S ''API error: '' @ py_str L code @ S ''. '' @ py_str L (description d))
       \<and> summarize_netlify L (JObj d) =
           Inr (S ''API Error: '' @ py_str L code @ S ''. '' @ py_str L (description d))"
  using assms
  by (simp add: summarize_main_def summarize_netlify_def summarize_with_def has_key_def
      dict_get_def description_def py_or_def)

theorem summarize_error_line_witness:
  "map_of err_obj (S ''Error code'') = Some (JStr (S ''ERR_TOKEN''))
   \<and> summarize_main example_lib (JObj err_obj) = Inr (S ''API error: ERR_TOKEN. bad token'')
   \<and> summarize_netlify example_lib (JObj err_obj) = Inr (S ''API Error: ERR_TOKEN. bad token'')"
  using summarize_error_line [of err_obj "JStr (S ''ERR_TOKEN'')" example_lib]
  by (simp add: err_obj_def description_def dict_get_def py_str_def)

text \<open>
  C6 fails for the serverless variant. On the spec's example
  \<open>{"Error code": "ERR_TOKEN", "Description": "bad token"}\<close> the summarizer of
  \<open>main.py\<close> returns exactly \<open>API error: ERR_TOKEN. bad token\<close>; the summarizer of
  \<open>netlify/functions/query.py\<close> returns \<open>API Error: ERR_TOKEN. bad token\<close>, with a
  capital E, which is not the string of the claim.
\<close>

theorem summarize_netlify_capital_E:
  "summarize_main example_lib (JObj err_obj) = Inr (S ''API error: ERR_TOKEN. bad token'')
   \<and> summarize_netlify example_lib (JObj err_obj) = Inr (S ''API Error: ERR_TOKEN. bad token'')
   \<and> summarize_netlify example_lib (JObj err_obj) \<noteq> Inr (S ''API error: ERR_TOKEN. bad token'')"
  by (simp add: summarize_main_def summarize_netlify_def summarize_with_def err_obj_def has_key_def
      dict_get_def py_or_def py_str_def)

subsection \<open>The loops of the summarizer\<close>

text \<open>
  Each loop appends to \<open>parts\<close>, and what it appends is the text the spec describes:
  induction on the list the loop runs over, with \<open>parts\<close> (and the entry number)
  generalised.
\<close>

lemma field_loop_eq: "field_loop L parts kvs = parts @ map (\<lambda>(k, v). field_line L k v) kvs"
  by (induction kvs arbitrary: parts) auto

lemma entry_blocks_Nil: "entry_blocks L i [] = []"
  by (simp add: entry_blocks_def)

lemma entry_blocks_Cons:
  "entry_blocks L i (e # es) = entry_block L i e @ entry_blocks L (Suc i) es"
proof -
  have "[i..<i + Suc (length es)] = i # [Suc i..<i + Suc (length es)]"
    by (rule upt_conv_Cons) simp
  then have u: "[i..<i + length (e # es)] = i # [Suc i..<Suc i + length es]"
    by simp
  show ?thesis
    unfolding entry_blocks_def u by (simp del: upt_Suc)
qed

lemma entry_loop_eq: "entry_loop L parts i es = parts @ entry_blocks L i es"
proof (induction es arbitrary: parts i)
  case Nil
  then show ?case by (simp add: entry_blocks_Nil)
next
  case (Cons e es)
  show ?case
    by (cases e) (simp_all add: Cons.IH entry_blocks_Cons entry_block_def field_loop_eq)
qed

lemma db_step:
  assumes "db_object dbinfo"
  shows "\<exists>d. dbinfo = JObj d \<and> db_loop L parts ((dbname, dbinfo) # rest) = db_loop L (parts @ db_block L dbname d) rest"
proof -
  from assms obtain d where d: "dbinfo = JObj d" by (cases dbinfo) auto
  from assms d have "map_of d (S ''Data'') = None \<or> map_of d (S ''Data'') = Some JNull \<or> (\<exists>xs. map_of d (S ''Data'') = Some (JArr xs))"
    by (auto split: option.splits json.splits)
  then have "db_loop L parts ((dbname, JObj d) # rest) = db_loop L (parts @ db_block L dbname d) rest"
    by (elim disjE exE; cases "data_list d")
       (simp_all add: Let_def dict_get_def py_or_def db_block_def data_list_def summary_lines_def entry_loop_eq)
  with d show ?thesis by simp
qed

lemma db_loop_eq:
  assumes "\<forall>(dbname, dbinfo) \<in> set dbs. db_object dbinfo"
  shows "db_loop L parts dbs = Inr (parts @ db_blocks L dbs)"
  using assms
proof (induction dbs arbitrary: parts)
  case Nil
  then show ?case by (simp add: db_blocks_def)
next
  case (Cons p dbs)
  obtain dbname dbinfo where p: "p = (dbname, dbinfo)" by (cases p)
  with Cons.prems have "db_object dbinfo" by simp
  from db_step [OF this, of L parts dbname dbs] obtain d where
    d: "dbinfo = JObj d" and st: "db_loop L parts ((dbname, dbinfo) # dbs) = db_loop L (parts @ db_block L dbname d) dbs"
    by blast
  from Cons.prems have "\<forall>(dbname, dbinfo) \<in> set dbs. db_object dbinfo" by simp
  from Cons.IH [OF this] st p d show ?case by (simp add: db_blocks_def)
qed

lemma summarize_with_list:
  assumes "\<not> has_key obj (S ''Error code'')"
    and "map_of obj (S ''List'') = Some (JObj dbs)"
    and "\<forall>(dbname, dbinfo) \<in> set dbs. db_object dbinfo"
  shows "summarize_with prefix L (JObj obj) = Inr (py_strip (join [10] (db_blocks L dbs)))"
  using assms(1,2) db_loop_eq [OF assms(3), of L "[]"]
  by (simp add: summarize_with_def)

lemma db1_blocks: "py_strip (join [10] (db_blocks example_lib db1_dbs)) = db1_text"
  by (simp add: db_blocks_def db_block_def db1_dbs_def db1_data_def data_list_def summary_lines_def dict_get_def
     entry_blocks_def entry_block_def field_line_def py_str_def dec_small db1_text_def py_strip_def py_isspace_def upt_rec)

lemma db_block_no_data:
  assumes "map_of d (S ''Data'') = None \<or> map_of d (S ''Data'') = Some JNull"
  shows "db_block L dbname d = [S ''== '' @ dbname @ S '' ==''] @ summary_lines L d @ [S ''Entries: 0'', []]"
  using assms by (auto simp add: db_block_def data_list_def entry_blocks_def dec_small)

text \<open>
  Every line of an entry block starts with a space, so the line for the remaining
  entries is among the lines of a database exactly when it has more than three.
\<close>

lemma entry_blocks_lines:
  assumes "l \<in> set (entry_blocks L i es)"
  shows "l \<noteq> [] \<and> hd l = 32"
  using assms
proof (induction es arbitrary: i)
  case Nil
  then show ?case by (simp add: entry_blocks_Nil)
next
  case (Cons e es)
  then show ?case
    by (cases e) (auto simp: entry_blocks_Cons entry_block_def field_line_def Let_def)
qed

lemma more_line_iff:
  "(S ''...and '' @ dec_nat (length (data_list d) - 3) @ S '' more entries'') \<in> set (db_block L dbname d)
   \<longleftrightarrow> 3 < length (data_list d)"
proof -
  have e: "(S ''...and '' @ dec_nat (length (data_list d) - 3) @ S '' more entries'')
            \<notin> set (entry_blocks L 1 (take 3 (data_list d)))"
    using entry_blocks_lines [of "S ''...and '' @ dec_nat (length (data_list d) - 3) @ S '' more entries''"
            L 1 "take 3 (data_list d)"]
    by auto
  show ?thesis
    using e by (auto simp: db_block_def Let_def summary_lines_def)
qed

subsection \<open>The database listing\<close>

text \<open>
  C7, as the code has it. For every JSON object that has no \<open>Error code\<close> field and
  whose \<open>List\<close> field is a mapping of database names to database objects, the
  summarizer of either variant returns the lines of the databases in iteration order,
  joined by newlines and stripped, where the lines of a database are \<open>db_block\<close>:
  the header \<open>== <name> ==\<close>, the optional \<open>Summary:\<close> line, \<open>Entries: <N>\<close> with
  \<open>N\<close> the length of its \<open>Data\<close> sequence, the Entry blocks of at most the first
  three entries, \<open>...and <N-3> more entries\<close> exactly when \<open>N > 3\<close>, and a blank line.
\<close>

theorem summarize_list_blocks:
  assumes "\<not> has_key obj (S ''Error code'')"
    and "map_of obj (S ''List'') = Some (JObj dbs)"
    and "\<forall>(dbname, dbinfo) \<in> set dbs. db_object dbinfo"
  shows "summarize_main L (JObj obj) = Inr (py_strip (join [10] (db_blocks L dbs)))
       \<and> summarize_netlify L (JObj obj) = Inr (py_strip (join [10] (db_blocks L dbs)))"
  using summarize_with_list [OF assms] by (simp add: summarize_main_def summarize_netlify_def)

text \<open>
  The spec's example: one database \<open>DB1\<close> with \<open>InfoLeak\<close> \<open>desc\<close> and four entries
  gives the ten lines of \<open>db1_text\<close>, with three Entry lines and \<open>...and 1 more entries\<close>.
\<close>

theorem summarize_list_blocks_witness:
  "\<not> has_key db1_obj (S ''Error code'')
   \<and> map_of db1_obj (S ''List'') = Some (JObj db1_dbs)
   \<and> list_all (\<lambda>(dbname, dbinfo). db_object dbinfo) db1_dbs
   \<and> summarize_main example_lib (JObj db1_obj) = Inr db1_text
   \<and> summarize_netlify example_lib (JObj db1_obj) = Inr db1_text"
proof -
  have h1: "\<not> has_key db1_obj (S ''Error code'')" by (simp add: has_key_def db1_obj_def)
  have h2: "map_of db1_obj (S ''List'') = Some (JObj db1_dbs)" by (simp add: db1_obj_def)
  have h3: "\<forall>(dbname, dbinfo) \<in> set db1_dbs. db_object dbinfo" by (simp add: db1_dbs_def db1_data_def)
  have h3': "list_all (\<lambda>(dbname, dbinfo). db_object dbinfo) db1_dbs"
    by (simp add: db1_dbs_def db1_data_def)
  from summarize_list_blocks [OF h1 h2 h3, of example_lib] h1 h2 h3' show ?thesis
    by (simp only: db1_blocks) simp
qed

text \<open>
  C7 as stated fails on an object that has an \<open>Error code\<close> field beside \<open>List\<close>:
  the error line is returned and no database is listed.
\<close>

theorem summarize_list_counterexample:
  "summarize_main example_lib (JObj ((S ''Error code'', JStr (S ''E1'')) # db1_obj)) = Inr (S ''API error: E1. '')
   \<and> summarize_main example_lib (JObj ((S ''Error code'', JStr (S ''E1'')) # db1_obj)) \<noteq> Inr db1_text"
  by (simp add: summarize_main_def summarize_with_def has_key_def dict_get_def py_or_def py_str_def db1_obj_def db1_text_def)

subsection \<open>A database without data\<close>

text \<open>
  C10, as the code has it. For every JSON object that has no \<open>Error code\<close> field and
  whose \<open>List\<close> field is a mapping of database names to database objects, a database
  whose \<open>Data\<close> field is missing or null does not make the summarizer fail: it
  contributes its header, its optional \<open>Summary:\<close> line, \<open>Entries: 0\<close> and the blank
  separator, no Entry line and no line for more entries, and the databases before and
  after it are listed as usual.
\<close>

theorem summarize_missing_data:
  assumes "\<not> has_key obj (S ''Error code'')"
    and "map_of obj (S ''List'') = Some (JObj (pre @ (dbname, JObj d) # post))"
    and "\<forall>(n, v) \<in> set (pre @ post). db_object v"
    and "map_of d (S ''Data'') = None \<or> map_of d (S ''Data'') = Some JNull"
  shows "summarize_main L (JObj obj) =
           Inr (py_strip (join [10] (db_blocks L pre
                  @ ([S ''== '' @ dbname @ S '' ==''] @ summary_lines L d @ [S ''Entries: 0'', []])
                  @ db_blocks L post)))
       \<and> summarize_netlify L (JObj obj) =
           Inr (py_strip (join [10] (db_blocks L pre
                  @ ([S ''== '' @ dbname @ S '' ==''] @ summary_lines L d @ [S ''Entries: 0'', []])
                  @ db_blocks L post)))"
proof -
  have "db_object (JObj d)" using assms(4) by auto
  with assms(3) have all: "\<forall>(n, v) \<in> set (pre @ (dbname, JObj d) # post). db_object v" by auto
  have "db_blocks L (pre @ (dbname, JObj d) # post) = db_blocks L pre @ db_block L dbname d @ db_blocks L post"
    by (simp add: db_blocks_def)
  with summarize_with_list [OF assms(1,2) all] db_block_no_data [OF assms(4)]
  show ?thesis by (simp add: summarize_main_def summarize_netlify_def)
qed

theorem summarize_missing_data_witness:
  "\<not> has_key [(S ''List'', JObj nodata_dbs)] (S ''Error code'')
   \<and> map_of [(S ''List'', JObj nodata_dbs)] (S ''List'')
       = Some (JObj ([] @ (S ''A'', JObj [(S ''info'', JStr (S ''x'')), (S ''Data'', JNull)]) # db1_dbs))
   \<and> list_all (\<lambda>(n, v). db_object v) ([] @ db1_dbs)
   \<and> (map_of [(S ''info'', JStr (S ''x'')), (S ''Data'', JNull)] (S ''Data'') = None
        \<or> map_of [(S ''info'', JStr (S ''x'')), (S ''Data'', JNull)] (S ''Data'') = Some JNull)
   \<and> summarize_main example_lib (JObj [(S ''List'', JObj nodata_dbs)]) = Inr nodata_text
   \<and> summarize_netlify example_lib (JObj [(S ''List'', JObj nodata_dbs)]) = Inr nodata_text"
proof -
  let ?d = "[(S ''info'', JStr (S ''x'')), (S ''Data'', JNull)]"
  let ?obj = "[(S ''List'', JObj nodata_dbs)]"
  have h1: "\<not> has_key ?obj (S ''Error code'')" by (simp add: has_key_def)
  have h2: "map_of ?obj (S ''List'') = Some (JObj ([] @ (S ''A'', JObj ?d) # db1_dbs))"
    by (simp add: nodata_dbs_def)
  have h3: "\<forall>(n, v) \<in> set ([] @ db1_dbs). db_object v" by (simp add: db1_dbs_def db1_data_def)
  have h4: "map_of ?d (S ''Data'') = None \<or> map_of ?d (S ''Data'') = Some JNull" by simp
  have b: "db_blocks example_lib db1_dbs = [S ''== DB1 =='', S ''Summary: desc'', S ''Entries: 4'',
      S '' Entry 1:'', S ''  a: 1'', S '' Entry 2:'', S ''  a: 2'', S '' Entry 3:'', S ''  a: 3'',
      S ''...and 1 more entries'', []]"
     by (simp add: db_blocks_def db_block_def db1_dbs_def db1_data_def data_list_def summary_lines_def dict_get_def
     entry_blocks_def entry_block_def field_line_def py_str_def dec_small upt_rec)
  have t: "py_strip (join [10] (db_blocks example_lib [] @ ([S ''== '' @ S ''A'' @ S '' ==''] @ summary_lines example_lib ?d @ [S ''Entries: 0'', []])
                  @ db_blocks example_lib db1_dbs)) = nodata_text"
    unfolding b
    by (simp add: db_blocks_def summary_lines_def dict_get_def py_str_def nodata_text_def db1_text_def py_strip_def py_isspace_def)
  have h3': "list_all (\<lambda>(n, v). db_object v) ([] @ db1_dbs)"
    by (simp add: db1_dbs_def db1_data_def)
  from summarize_missing_data [OF h1 h2 h3 h4, of example_lib] h1 h2 h3' h4 show ?thesis
    by (simp only: t) simp
qed

text \<open>
  C10 as stated fails on an object that has an \<open>Error code\<close> field beside \<open>List\<close>:
  no \<open>Entries: 0\<close> line is emitted, the output is the error line alone.
\<close>

theorem summarize_missing_data_counterexample:
  "summarize_main example_lib
     (JObj [(S ''Error code'', JStr (S ''E2'')), (S ''List'', JObj [(S ''A'', JObj [])])])
   = Inr (S ''API error: E2. '')"
  by (simp add: summarize_main_def summarize_with_def has_key_def dict_get_def py_or_def py_str_def)


subsection \<open>The arithmetic of doubles\<close>

text \<open>
  An integer of fewer than 54 bits is a double: rounding leaves it as it is.
\<close>

lemma round_half_even_of_int: "round_half_even (of_int m) = m"
  by (simp add: round_half_even_def)

lemma to_double_of_int:
  assumes "0 < k" and "k < 2 ^ 53"
  shows "to_double (of_int k) = of_int k"
proof -
  define e where "e = \<lfloor>log 2 \<bar>real_of_int k\<bar>\<rfloor>"
  have kpos: "0 < real_of_int k" using assms(1) by simp
  have k1: "1 \<le> real_of_int k" using assms(1) by simp
  have ab: "\<bar>real_of_int k\<bar> = real_of_int k" using assms(1) by simp
  have "real_of_int k < 2 ^ 53"
    using assms(2) by (metis of_int_less_iff of_int_numeral of_int_power)
  then have "log 2 (real_of_int k) < 53"
    using kpos by (simp add: log_less_iff powr_realpow [symmetric] del: powr_realpow)
  then have e52: "e \<le> 52" using kpos by (simp add: e_def ab floor_le_iff)
  define n where "n = nat (52 - e)"
  have en: "real_of_int e - 52 = - real n" using e52 by (simp add: n_def)
  have u: "ulp (of_int k) = inverse (2 ^ n)"
    unfolding ulp_def e_def [symmetric] en by (simp add: powr_minus powr_realpow)
  have q: "real_of_int k / ulp (of_int k) = of_int (k * 2 ^ n)"
    unfolding u by (simp add: field_simps)
  have r: "round_half_even (real_of_int k / ulp (of_int k)) = k * 2 ^ n"
    by (simp only: q round_half_even_of_int)
  have "to_double (of_int k) = of_int (k * 2 ^ n) * ulp (of_int k)"
    using kpos by (simp only: to_double_def r) simp
  then show ?thesis unfolding u by (simp add: field_simps)
qed

lemma to_double_small:
  "to_double 10 = 10" "to_double 15 = 15" "to_double 100 = 100" "to_double 4000 = 4000"
  using to_double_of_int [of 10] to_double_of_int [of 15] to_double_of_int [of 100]
    to_double_of_int [of 4000]
  by simp_all

subsection \<open>The cost estimator\<close>

lemma sqrt100: "sqrt 100 = 10"
  by (rule real_sqrt_unique) simp_all

lemma wc_password: "word_count L (S ''password'') = 1"
  by (simp add: word_count_def py_split_def py_isspace_def py_isdigit_def py_isdigit_char_def)

lemma below_float_limit: "(100::int) < float_limit \<and> 4000 < float_limit"
proof -
  have "(2::int) ^ 970 * 2 ^ 54 = 2 ^ 1024" by (simp add: power_add [symmetric])
  moreover have "(1::int) \<le> 2 ^ 970" by simp
  ultimately show ?thesis unfolding float_limit_def by simp
qed

lemma double_cost_100: "double_cost 100 = to_double (3 / 1000)"
  by (simp add: double_cost_def to_double_small sqrt100)

lemma cost_of_password: "calculate_cost L 100 (S ''password'') = Inr (to_double (3 / 1000))"
  using below_float_limit
  by (simp add: calculate_cost_def py_split_def py_isspace_def py_isdigit_def py_isdigit_char_def
      math_sqrt_def to_double_small sqrt100)

text \<open>
  \<open>py_split\<close> gives the whitespace-separated tokens: none is empty, none has a whitespace
  character, and together they are the text without its whitespace.
\<close>

lemma split_scan_tokens:
  assumes "\<forall>c \<in> set cur. \<not> py_isspace c" and "w \<in> set (split_scan cur s)"
  shows "w \<noteq> [] \<and> (\<forall>c \<in> set w. \<not> py_isspace c)"
  using assms
proof (induction s arbitrary: cur)
  case Nil
  then show ?case by (auto split: if_splits)
next
  case (Cons a s)
  show ?case
  proof (cases "py_isspace a")
    case True
    with Cons.prems(2) have "(w = cur \<and> cur \<noteq> []) \<or> w \<in> set (split_scan [] s)"
      by (auto split: if_splits)
    then show ?thesis
      using Cons.prems(1) Cons.IH [of "[]"] by auto
  next
    case False
    with Cons.prems(2) have "w \<in> set (split_scan (cur @ [a]) s)" by simp
    moreover have "\<forall>c \<in> set (cur @ [a]). \<not> py_isspace c"
      using False Cons.prems(1) by auto
    ultimately show ?thesis using Cons.IH by blast
  qed
qed

lemma py_split_tokens:
  assumes "w \<in> set (py_split s)"
  shows "w \<noteq> [] \<and> (\<forall>c \<in> set w. \<not> py_isspace c)"
  using split_scan_tokens [of "[]" w s] assms by (simp add: py_split_def)

lemma concat_split_scan: "concat (split_scan cur s) = cur @ filter (\<lambda>c. \<not> py_isspace c) s"
  by (induction s arbitrary: cur) auto

lemma concat_py_split: "concat (py_split s) = filter (\<lambda>c. \<not> py_isspace c) s"
  by (simp add: py_split_def concat_split_scan)

text \<open>
  C4, as the code has it. For every integer limit and string query, with the complexity
  1, 5, 16 for a word count of 1, 2, 3 and 40 otherwise (also for 0), and \<open>n\<close> the
  product of limit and complexity: \<open>calculate_cost\<close> returns \<open>(5 + sqrt(n)) / 5000\<close>,
  computed in doubles, when \<open>n\<close> is not negative and converts to a float; it raises
  \<open>ValueError\<close> when \<open>n\<close> is negative and converts, and \<open>OverflowError\<close> when \<open>n\<close>
  does not convert (a magnitude of \<open>2\<^sup>1\<^sup>0\<^sup>2\<^sup>4 - 2\<^sup>9\<^sup>7\<^sup>0\<close> or more).
\<close>

theorem calculate_cost_formula:
  "calculate_cost L limit q =
     (let n = limit * complexity_of (word_count L q)
      in if float_limit \<le> \<bar>n\<bar> then Inl (OverflowError (S ''int too large to convert to float''))
         else if n < 0 then Inl (ValueError (S ''math domain error''))
         else Inr (double_cost n))"
  by (simp add: calculate_cost_def word_count_def complexity_of_def math_sqrt_def double_cost_def
      Let_def)

text \<open>
  The spec's examples: \<open>cost(100, "password")\<close> is the double \<open>0.003\<close>, and
  \<open>cost(100, "ab cd ef")\<close>, with no qualifying word, takes the complexity 40.
\<close>

theorem calculate_cost_formula_witness:
  "calculate_cost example_lib 100 (S ''password'') = Inr (to_double (3 / 1000))
   \<and> calculate_cost example_lib 100 (S ''ab cd ef'') = Inr (double_cost 4000)"
proof -
  have w: "word_count example_lib (S ''ab cd ef'') = 0"
    by (simp add: word_count_def py_split_def py_isspace_def)
  have a: "calculate_cost example_lib 100 (S ''password'') = Inr (to_double (3 / 1000))"
    using calculate_cost_formula [of example_lib 100 "S ''password''"] below_float_limit
    unfolding wc_password complexity_of_def
    by (simp add: double_cost_100)
  have b: "calculate_cost example_lib 100 (S ''ab cd ef'') = Inr (double_cost 4000)"
    using calculate_cost_formula [of example_lib 100 "S ''ab cd ef''"] below_float_limit
    unfolding w complexity_of_def
    by simp
  from a b show ?thesis by simp
qed

text \<open>
  C4 as stated fails for a negative limit: \<open>math.sqrt\<close> raises, and no cost is returned.
\<close>

theorem calculate_cost_counterexample:
  "calculate_cost example_lib (- 1) (S ''password'') = Inl (ValueError (S ''math domain error''))"
  using below_float_limit
  by (simp add: calculate_cost_def py_split_def py_isspace_def py_isdigit_def py_isdigit_char_def
      math_sqrt_def)

subsection \<open>The serverless handler after its checks\<close>

lemma handler_after_post:
  assumes "reaches_post L E ev"
  shows "outcome (handler_try L E ev up) = after_post L (allowed_origin E) up"
proof -
  from assms obtain d where d: "request_object ev = Some d"
    by (auto simp: reaches_post_def split: option.splits)
  then have b: "getenv (ev_body ev) \<noteq> []" and l: "loaded ev = Some (JObj d)"
    by (auto simp: request_object_def split: if_splits option.splits json.splits)
  from assms d obtain n where n: "py_int L (dict_get_default d (S ''limit'') (JInt 100)) = Inr n"
    by (cases "py_int L (dict_get_default d (S ''limit'') (JInt 100))") (auto simp: reaches_post_def)
  from assms d have q: "truthy (py_or (dict_get d (S ''query'')) (dict_get d (S ''request'')))"
    and m: "httpMethod ev \<noteq> Some (S ''OPTIONS'')" and t: "getenv (LEAK_API_TOKEN E) \<noteq> []"
    by (auto simp: reaches_post_def)
  show ?thesis
    using b l n q m t by (simp add: handler_try_def Let_def allowed_origin_def)
qed

lemma reaches_ev_x: "reaches_post example_lib env0 ev_x"
  by (simp add: reaches_post_def ev_x_def mk_event_def env0_def getenv_def request_object_def
      dict_get_def dict_get_default_def py_or_def)

lemma origin_env0: "allowed_origin env0 = None"
  by (simp add: allowed_origin_def env0_def getenv_def py_strip_def)

subsection \<open>A non-success status from the upstream\<close>

text \<open>
  The serverless handler on a non-success status (400 to 599): it responds 502 with a
  JSON body that carries the upstream status code and, as \<open>text\<close>, the upstream body
  when it has at most 1000 characters and otherwise its first 1000 characters followed
  by the one-character ellipsis. On the same reply \<open>query\<close> of \<open>main.py\<close> raises the
  \<open>HTTPException\<close> with status 502 and the message of the \<open>HTTPError\<close> as detail.
\<close>

theorem upstream_error_502:
  assumes "reaches_post L E ev" and "\<not> reply_ok resp"
  shows "outcome (handler L E ev (Replied resp)) =
           make_response 502
             (JObj [(S ''error'', JStr (S ''Upstream returned non-200'')),
                    (S ''status_code'', JInt (int (status_code resp))),
                    (S ''text'', JStr (truncated (resp_text resp)))])
             (allowed_origin E)
       \<and> truncated (resp_text resp)
           = (if length (resp_text resp) \<le> 1000 then resp_text resp
              else take 1000 (resp_text resp) @ ellipsis)
       \<and> length (truncated (resp_text resp)) \<le> 1001
       \<and> outcome (query L tok payload (Replied resp)) =
           Inl (HTTPException 502 (S ''Upstream HTTP error: '' @ http_error_msg resp))"
  using handler_after_post [OF assms(1), of "Replied resp"] assms(2)
  by (simp add: handler_def after_post_def truncated_def ellipsis_def query_def call_leak_api_def Let_def)

theorem upstream_error_502_witness:
  "reaches_post example_lib env0 ev_x \<and> \<not> reply_ok short_reply
   \<and> outcome (handler example_lib env0 ev_x (Replied short_reply)) =
       make_response 502
         (JObj [(S ''error'', JStr (S ''Upstream returned non-200'')),
                (S ''status_code'', JInt 404), (S ''text'', JStr (S ''oops''))])
         None
   \<and> outcome (query example_lib (S ''5844553333:b063s6yM'') payload_x (Replied short_reply)) =
       Inl (HTTPException 502
              (S ''Upstream HTTP error: 404 Client Error: Not Found for url: https://leakosintapi.com/''))"
proof -
  have r: "\<not> reply_ok short_reply" by (simp add: reply_ok_def short_reply_def)
  have m: "http_error_msg short_reply = S ''404 Client Error: Not Found for url: https://leakosintapi.com/''"
    by (simp add: http_error_msg_def short_reply_def API_URL_def dec_nat.simps)
  have t: "truncated (resp_text short_reply) = S ''oops''" by (simp add: truncated_def short_reply_def)
  have c: "status_code short_reply = 404" by (simp add: short_reply_def)
  from upstream_error_502 [OF reaches_ev_x r, of "S ''5844553333:b063s6yM''" payload_x]
  show ?thesis
    unfolding m t c origin_env0 using reaches_ev_x r by simp
qed

text \<open>
  The text of the response starts with the copy of the body, which has at most 1000
  characters.
\<close>

lemma truncated_copy:
  "take 1000 (truncated t) = take 1000 t \<and> length (take 1000 (truncated t)) \<le> 1000"
  by (simp add: truncated_def)

text \<open>
  C9 fails for the FastAPI variant. On the upstream reply 404 with the body \<open>oops\<close>
  the serverless handler responds 502 with the status code 404 and the text \<open>oops\<close>;
  \<open>query\<close> of \<open>main.py\<close> answers 502 with the detail
  \<open>Upstream HTTP error: 404 Client Error: Not Found for url: https://leakosintapi.com/\<close>,
  which has no copy of the upstream body.
\<close>

theorem upstream_error_no_body:
  "outcome (query example_lib token0 payload_x (Replied short_reply)) =
     Inl (HTTPException 502
            (S ''Upstream HTTP error: 404 Client Error: Not Found for url: https://leakosintapi.com/''))
   \<and> resp_text short_reply = S ''oops''
   \<and> \<not> contains
         (S ''Upstream HTTP error: 404 Client Error: Not Found for url: https://leakosintapi.com/'')
         (S ''oops'')
   \<and> outcome (handler example_lib env0 ev_x (Replied short_reply)) =
       make_response 502
         (JObj [(S ''error'', JStr (S ''Upstream returned non-200'')),
                (S ''status_code'', JInt 404), (S ''text'', JStr (S ''oops''))])
         None"
proof -
  have q: "outcome (query example_lib token0 payload_x (Replied short_reply)) =
     Inl (HTTPException 502
            (S ''Upstream HTTP error: 404 Client Error: Not Found for url: https://leakosintapi.com/''))"
    by (simp add: query_def call_leak_api_def reply_ok_def short_reply_def http_error_msg_def
        API_URL_def dec_nat.simps Let_def)
  have h: "outcome (handler example_lib env0 ev_x (Replied short_reply)) =
       make_response 502
         (JObj [(S ''error'', JStr (S ''Upstream returned non-200'')),
                (S ''status_code'', JInt 404), (S ''text'', JStr (S ''oops''))])
         None"
    using handler_after_post [OF reaches_ev_x, of "Replied short_reply"]
    by (simp add: handler_def after_post_def origin_env0 reply_ok_def short_reply_def truncated_def)
  have c: "\<not> contains
         (S ''Upstream HTTP error: 404 Client Error: Not Found for url: https://leakosintapi.com/'')
         (S ''oops'')"
    by simp
  from q h c show ?thesis by (simp add: short_reply_def)
qed

subsection \<open>A successful reply that is not JSON\<close>

text \<open>
  The serverless handler on a reply with a success status whose body is not valid JSON:
  it does not fail the request, it responds 200 with the raw upstream text as \<open>raw\<close>
  and \<open>textwrap.shorten\<close> of it, at width 2000, as \<open>summary\<close>.
\<close>

theorem non_json_preview:
  assumes "reaches_post L E ev" and "reply_ok resp" and "parsed resp = Inl m"
  shows "outcome (handler L E ev (Replied resp)) =
           make_response 200
             (JObj [(S ''raw'', JStr (resp_text resp)),
                    (S ''summary'', JStr (shorten L (resp_text resp) 2000 (S '' [...]'')))])
             (allowed_origin E)"
  using handler_after_post [OF assms(1), of "Replied resp"] assms(2,3)
  by (simp add: handler_def after_post_def)

theorem non_json_preview_witness:
  "reaches_post example_lib env0 ev_x \<and> reply_ok html_reply \<and> parsed html_reply = Inl decode_msg
   \<and> outcome (handler example_lib env0 ev_x (Replied html_reply)) =
       make_response 200
         (JObj [(S ''raw'', JStr (S ''<html>upstream down</html>'')),
                (S ''summary'', JStr (shorten example_lib (S ''<html>upstream down</html>'') 2000 (S '' [...]'')))])
         None"
proof -
  have r: "reply_ok html_reply" by (simp add: reply_ok_def html_reply_def)
  have p: "parsed html_reply = Inl decode_msg" by (simp add: html_reply_def)
  have t: "resp_text html_reply = S ''<html>upstream down</html>''" by (simp add: html_reply_def)
  from non_json_preview [OF reaches_ev_x r p] show ?thesis
    unfolding t origin_env0 using reaches_ev_x r p by simp
qed

text \<open>
  C8 fails for the other two variants. On a reply with status 200 whose body is not
  JSON the serverless handler responds 200 with the raw text; \<open>search\<close> of \<open>app.py\<close>
  responds 500 with the message of the decoding error, and \<open>query\<close> of \<open>main.py\<close>
  answers 502: both fail the request.
\<close>

theorem non_json_fails_request:
  "outcome (search example_lib token0 data_password (Replied html_reply))
     = Inr (500, error_body decode_msg)
   \<and> outcome (query example_lib token0 payload_x (Replied html_reply))
     = Inl (HTTPException 502 (S ''Upstream request failed: '' @ decode_msg))
   \<and> outcome (handler example_lib env0 ev_x (Replied html_reply))
     = make_response 200
         (JObj [(S ''raw'', JStr (S ''<html>upstream down</html>'')),
                (S ''summary'',
                   JStr (shorten example_lib (S ''<html>upstream down</html>'') 2000 (S '' [...]'')))])
         None"
proof -
  have c: "calculate_cost example_lib 100 (S ''password'') = Inr (to_double (3 / 1000))"
    by (rule cost_of_password)
  have s: "outcome (search example_lib token0 data_password (Replied html_reply))
      = Inr (search_try example_lib (to_double (3 / 1000)) (Replied html_reply))"
    unfolding search_def data_password_def using c
    by (simp add: dict_get_def dict_get_default_def Let_def)
  have a: "outcome (search example_lib token0 data_password (Replied html_reply))
     = Inr (500, error_body decode_msg)"
    unfolding s by (simp add: search_try_def html_reply_def)
  have b: "outcome (query example_lib token0 payload_x (Replied html_reply))
     = Inl (HTTPException 502 (S ''Upstream request failed: '' @ decode_msg))"
    by (simp add: html_reply_def query_def call_leak_api_def payload_x_def reply_ok_def Let_def)
  have h: "outcome (handler example_lib env0 ev_x (Replied html_reply))
     = make_response 200
         (JObj [(S ''raw'', JStr (S ''<html>upstream down</html>'')),
                (S ''summary'',
                   JStr (shorten example_lib (S ''<html>upstream down</html>'') 2000 (S '' [...]'')))])
         None"
    using handler_after_post [OF reaches_ev_x, of "Replied html_reply"]
    by (simp add: handler_def after_post_def origin_env0 reply_ok_def html_reply_def)
  from a b h show ?thesis by simp
qed

subsection \<open>The limit that is forwarded\<close>

text \<open>
  The cost-aware variant caps the limit: what \<open>search\<close> posts has the limit
  \<open>min(n, 10000)\<close>, \<open>n\<close> being the submitted limit, or 100 when there is none.
\<close>

lemma search_forwards_min:
  assumes "posted (search L tok (JObj d) up) = [p]"
    and "py_int L (dict_get_default d (S ''limit'') (JInt 100)) = Inr n"
  shows "map_of p (S ''limit'') = Some (JInt (min n 10000))"
  using assms
  by (auto simp: search_def Let_def split: if_splits sum.splits json.splits)

text \<open>
  The other two variants forward the limit as it is submitted, and every variant takes
  the limit 100 when the field is absent.
\<close>

lemma handler_forwards_limit:
  assumes "reaches_post L E ev" and "request_object ev = Some d"
    and "py_int L (dict_get_default d (S ''limit'') (JInt 100)) = Inr n"
  shows "\<exists>p. posted (handler L E ev up) = [p] \<and> map_of p (S ''limit'') = Some (JInt n)"
proof -
  from assms(2) have b: "getenv (ev_body ev) \<noteq> []" and l: "loaded ev = Some (JObj d)"
    by (auto simp: request_object_def split: if_splits option.splits json.splits)
  from assms(1,2) have q: "truthy (py_or (dict_get d (S ''query'')) (dict_get d (S ''request'')))"
    and m: "httpMethod ev \<noteq> Some (S ''OPTIONS'')" and t: "getenv (LEAK_API_TOKEN E) \<noteq> []"
    by (auto simp: reaches_post_def)
  show ?thesis
    using b l q m t assms(3) by (simp add: handler_def handler_try_def Let_def)
qed

lemma query_forwards_limit:
  "\<exists>p. posted (query L tok payload up) = [p] \<and> map_of p (S ''limit'') = Some (JInt (q_limit payload))"
  by (simp add: query_def call_leak_api_def Let_def)

lemma limit_default:
  assumes "map_of d (S ''limit'') = None"
  shows "py_int L (dict_get_default d (S ''limit'') (JInt 100)) = Inr 100"
  using assms by (simp add: dict_get_default_def)

text \<open>
  C2 fails for the other two variants. On the request \<open>{"query": "x", "limit": 20000}\<close>
  the serverless handler posts the limit 20000, and so does \<open>query\<close> of \<open>main.py\<close> on a
  payload with that limit: neither caps it at 10000.
\<close>

theorem limit_not_capped:
  "posted (handler example_lib env0 ev_big timed_out) =
     [[(S ''token'', JStr (S ''5844553333:b063s6yM'')), (S ''request'', JStr (S ''x'')),
       (S ''limit'', JInt 20000), (S ''lang'', JStr (S ''en'')), (S ''type'', JStr (S ''json''))]]
   \<and> posted (query example_lib (S ''5844553333:b063s6yM'') (payload_x\<lparr>q_limit := 20000\<rparr>) timed_out) =
     [[(S ''token'', JStr (S ''5844553333:b063s6yM'')), (S ''request'', JStr (S ''x'')),
       (S ''limit'', JInt 20000), (S ''lang'', JStr (S ''en'')), (S ''type'', JStr (S ''json''))]]"
  by (simp add: handler_def handler_try_def ev_big_def mk_event_def env0_def getenv_def
      dict_get_def dict_get_default_def py_or_def py_str_def Let_def
      query_def call_leak_api_def payload_x_def)

subsection \<open>A request without a query\<close>




subsection \<open>The cost fields of the cost-aware variant\<close>

lemma map_of_dict_set: "map_of (dict_set d k v) k' = (if k' = k then Some v else map_of d k')"
  by (induction d) auto

lemma search_forwarded:
  assumes "request_cost L data = Some c"
  shows "outcome (search L tok data up) = Inr (search_try L c up)"
  using assms
  by (auto simp: request_cost_def search_def Let_def split: json.splits sum.splits if_splits)

lemma cost_password: "request_cost example_lib data_password = Some (to_double (3 / 1000))"
proof -
  have c: "calculate_cost example_lib 100 (S ''password'') = Inr (to_double (3 / 1000))"
    by (rule cost_of_password)
  show ?thesis
    unfolding request_cost_def data_password_def using c
    by (simp add: dict_get_def dict_get_default_def)
qed

text \<open>
  C5, as the code has it. In the cost-aware variant, for every request that is forwarded
  and every upstream JSON object, the 200 response body is the upstream body with the
  fields \<open>cost\<close> (the cost rounded to 6 decimal places) and \<open>balance_impact\<close> set when
  the upstream body has a \<open>List\<close> key, and the upstream body unchanged when it has
  none; in both cases every field of the upstream body other than \<open>cost\<close> and
  \<open>balance_impact\<close> is unchanged.
\<close>

theorem search_cost_fields:
  assumes "request_cost L data = Some c"
    and "parsed resp = Inr (JObj u)"
    and "k \<noteq> S ''cost''" and "k \<noteq> S ''balance_impact''"
  shows "outcome (search L tok data (Replied resp))
           = Inr (200, JObj (if has_key u (S ''List'') then with_cost L c u else u))
       \<and> map_of (with_cost L c u) (S ''cost'') = Some (JFloat (cost_value L c))
       \<and> map_of (with_cost L c u) (S ''balance_impact'')
           = Some (JStr (S ''$'' @ float_str (cost_value L c) @ S '' will be deducted''))
       \<and> map_of (with_cost L c u) k = map_of u k"
proof -
  have "search_try L c (Replied resp) = (200, JObj (if has_key u (S ''List'') then with_cost L c u else u))"
    using assms(2) by (simp add: search_try_def with_cost_def cost_value_def Let_def)
  with search_forwarded [OF assms(1)] have
    "outcome (search L tok data (Replied resp))
       = Inr (200, JObj (if has_key u (S ''List'') then with_cost L c u else u))"
    by simp
  moreover have "map_of (with_cost L c u) (S ''cost'') = Some (JFloat (cost_value L c))"
    by (simp add: with_cost_def map_of_dict_set)
  moreover have "map_of (with_cost L c u) (S ''balance_impact'')
           = Some (JStr (S ''$'' @ float_str (cost_value L c) @ S '' will be deducted''))"
    by (simp add: with_cost_def map_of_dict_set)
  moreover have "map_of (with_cost L c u) k = map_of u k"
    using assms(3,4) by (simp add: with_cost_def map_of_dict_set)
  ultimately show ?thesis by simp
qed

theorem search_cost_fields_witness:
  "request_cost example_lib data_password = Some (to_double (3 / 1000))
   \<and> parsed list_reply = Inr (JObj db1_obj)
   \<and> S ''List'' \<noteq> S ''cost'' \<and> S ''List'' \<noteq> S ''balance_impact''
   \<and> outcome (search example_lib token0 data_password (Replied list_reply))
       = Inr (200, JObj (with_cost example_lib (to_double (3 / 1000)) db1_obj))
   \<and> map_of (with_cost example_lib (to_double (3 / 1000)) db1_obj) (S ''List'') = Some (JObj db1_dbs)"
proof -
  have p: "parsed list_reply = Inr (JObj db1_obj)" by (simp add: list_reply_def)
  have k1: "S ''List'' \<noteq> S ''cost''" by simp
  have k2: "S ''List'' \<noteq> S ''balance_impact''" by simp
  have l: "has_key db1_obj (S ''List'')" by (simp add: has_key_def db1_obj_def)
  have m: "map_of db1_obj (S ''List'') = Some (JObj db1_dbs)" by (simp add: db1_obj_def)
  from search_cost_fields [OF cost_password p k1 k2, of token0] l m cost_password p
  show ?thesis by simp
qed

text \<open>
  C5 as stated fails when the upstream body has a \<open>cost\<close> field of its own: on
  \<open>{"List": {}, "cost": "free"}\<close> the response has the computed cost in that field,
  so a pre-existing field is changed.
\<close>

theorem search_cost_counterexample:
  "map_of priced_obj (S ''cost'') = Some (JStr (S ''free''))
   \<and> outcome (search example_lib token0 data_password (Replied priced_reply))
       = Inr (200, JObj [(S ''List'', JObj []),
                         (S ''cost'', JFloat (cost_value example_lib (to_double (3 / 1000)))),
                         (S ''balance_impact'',
                            JStr (S ''$'' @ float_str (cost_value example_lib (to_double (3 / 1000)))
                                  @ S '' will be deducted''))])"
proof -
  have "search_try example_lib (to_double (3 / 1000)) (Replied priced_reply)
      = (200, JObj [(S ''List'', JObj []),
                         (S ''cost'', JFloat (cost_value example_lib (to_double (3 / 1000)))),
                         (S ''balance_impact'',
                            JStr (S ''$'' @ float_str (cost_value example_lib (to_double (3 / 1000)))
                                  @ S '' will be deducted''))])"
    unfolding search_try_def priced_reply_def priced_obj_def
    by (simp add: has_key_def Let_def cost_value_def)
  with search_forwarded [OF cost_password, of token0 "Replied priced_reply"]
  show ?thesis by (simp add: priced_obj_def)
qed

subsection \<open>The token and the response\<close>

lemma handler_try_token:
  assumes "t1 \<noteq> []" and "t2 \<noteq> []"
  shows "outcome (handler_try L (E\<lparr>LEAK_API_TOKEN := Some t1\<rparr>) ev up)
       = outcome (handler_try L (E\<lparr>LEAK_API_TOKEN := Some t2\<rparr>) ev up)"
  using assms
  by (simp add: handler_try_def getenv_def Let_def split: option.splits json.splits sum.splits)

lemma handler_try_posted:
  assumes "t1 \<noteq> []" and "t2 \<noteq> []"
  shows "map untoken (posted (handler_try L (E\<lparr>LEAK_API_TOKEN := Some t1\<rparr>) ev up))
       = map untoken (posted (handler_try L (E\<lparr>LEAK_API_TOKEN := Some t2\<rparr>) ev up))"
  using assms
  by (simp add: handler_try_def getenv_def Let_def untoken_def
      split: option.splits json.splits sum.splits)

text \<open>
  The serverless handler on a transport failure: a request that passes its checks gets
  the response 502 with the description of the failure as detail.
\<close>

lemma transport_failure_502:
  assumes "reaches_post L E ev"
  shows "outcome (handler L E ev (Failed m)) =
           make_response 502
             (JObj [(S ''error'', JStr (S ''Upstream request failed'')), (S ''detail'', JStr m)])
             (allowed_origin E)"
  using handler_after_post [OF assms, of "Failed m"] by (simp add: handler_def after_post_def)

lemma timeout_body_without_token:
  "statusCode (outcome (handler example_lib env0 ev_x timed_out)) = 502
   \<and> \<not> contains (body (outcome (handler example_lib env0 ev_x timed_out))) token0"
  unfolding timed_out_def transport_failure_502 [OF reaches_ev_x]
  by (simp add: make_response_def token0_def dumps_str_def dumps_char_def)

text \<open>
  C1, as the code has it. For every inbound request and every upstream outcome, running
  any of the three handlers with two configured (non-empty) values of the token gives
  the same response, error bodies included, and posts the same payloads but for their
  \<open>token\<close> field: the response does not depend on the token.
\<close>

theorem token_independence:
  assumes "t1 \<noteq> []" and "t2 \<noteq> []"
  shows "outcome (handler L (E\<lparr>LEAK_API_TOKEN := Some t1\<rparr>) ev up)
           = outcome (handler L (E\<lparr>LEAK_API_TOKEN := Some t2\<rparr>) ev up)
       \<and> outcome (search L t1 data up) = outcome (search L t2 data up)
       \<and> outcome (query L t1 payload up) = outcome (query L t2 payload up)
       \<and> map untoken (posted (handler L (E\<lparr>LEAK_API_TOKEN := Some t1\<rparr>) ev up))
           = map untoken (posted (handler L (E\<lparr>LEAK_API_TOKEN := Some t2\<rparr>) ev up))
       \<and> map untoken (posted (search L t1 data up)) = map untoken (posted (search L t2 data up))
       \<and> map untoken (posted (query L t1 payload up)) = map untoken (posted (query L t2 payload up))"
proof -
  have "outcome (handler L (E\<lparr>LEAK_API_TOKEN := Some t1\<rparr>) ev up)
      = outcome (handler L (E\<lparr>LEAK_API_TOKEN := Some t2\<rparr>) ev up)"
    using handler_try_token [OF assms, of L E ev up]
    by (simp add: handler_def Let_def split: sum.splits)
  moreover have "outcome (search L t1 data up) = outcome (search L t2 data up)"
    by (simp add: search_def Let_def split: json.splits sum.splits)
  moreover have "outcome (query L t1 payload up) = outcome (query L t2 payload up)"
    by (simp add: query_def call_leak_api_def Let_def)
  moreover have "map untoken (posted (handler L (E\<lparr>LEAK_API_TOKEN := Some t1\<rparr>) ev up))
           = map untoken (posted (handler L (E\<lparr>LEAK_API_TOKEN := Some t2\<rparr>) ev up))"
    using handler_try_posted [OF assms, of L E ev up] by (simp add: handler_def Let_def)
  moreover have "map untoken (posted (search L t1 data up)) = map untoken (posted (search L t2 data up))"
    by (simp add: search_def Let_def untoken_def split: json.splits sum.splits)
  moreover have "map untoken (posted (query L t1 payload up)) = map untoken (posted (query L t2 payload up))"
    by (simp add: query_def call_leak_api_def Let_def untoken_def)
  ultimately show ?thesis by simp
qed

theorem token_independence_witness:
  "token0 \<noteq> [] \<and> S ''another-token'' \<noteq> []
   \<and> outcome (handler example_lib (env0\<lparr>LEAK_API_TOKEN := Some token0\<rparr>) ev_x timed_out)
       = outcome (handler example_lib (env0\<lparr>LEAK_API_TOKEN := Some (S ''another-token'')\<rparr>) ev_x timed_out)
   \<and> outcome (search example_lib token0 data_password timed_out)
       = outcome (search example_lib (S ''another-token'') data_password timed_out)
   \<and> outcome (query example_lib token0 payload_x timed_out)
       = outcome (query example_lib (S ''another-token'') payload_x timed_out)
   \<and> map untoken (posted (handler example_lib (env0\<lparr>LEAK_API_TOKEN := Some token0\<rparr>) ev_x timed_out))
       = map untoken (posted (handler example_lib (env0\<lparr>LEAK_API_TOKEN := Some (S ''another-token'')\<rparr>) ev_x timed_out))
   \<and> map untoken (posted (search example_lib token0 data_password timed_out))
       = map untoken (posted (search example_lib (S ''another-token'') data_password timed_out))
   \<and> map untoken (posted (query example_lib token0 payload_x timed_out))
       = map untoken (posted (query example_lib (S ''another-token'') payload_x timed_out))"
proof -
  have h1: "token0 \<noteq> []" by (simp add: token0_def)
  have h2: "S ''another-token'' \<noteq> []" by simp
  from token_independence [OF h1 h2, of example_lib env0 ev_x timed_out data_password payload_x]
  show ?thesis using h1 by simp
qed

text \<open>
  C1 as stated fails on a request that itself carries the text of the token: with the
  limit \<open>"5844553333:b063s6yM"\<close> the conversion to an int fails, the catch-all answers
  500 with the message of the error, and the body contains the token.
\<close>

theorem token_in_error_body_counterexample:
  "LEAK_API_TOKEN env0 = Some (S ''5844553333:b063s6yM'')
   \<and> outcome (handler example_lib env0 ev_tok timed_out)
       = make_response 500
           (JObj [(S ''error'', JStr (S ''Internal server error'')),
                  (S ''detail'', JStr (S ''invalid literal for int() with base 10: ''
                                       @ [39] @ S ''5844553333:b063s6yM'' @ [39]))])
           (Some (S ''*''))
   \<and> contains (body (outcome (handler example_lib env0 ev_tok timed_out))) (S ''5844553333:b063s6yM'')"
proof -
  have i: "py_int example_lib (JStr (S ''5844553333:b063s6yM''))
         = Inl (ValueError (S ''invalid literal for int() with base 10: ''
                            @ [39] @ S ''5844553333:b063s6yM'' @ [39]))"
    by (simp add: int_of_str_def int_literal_def int_isspace_def repr_str_def repr_char_def)
  have o: "outcome (handler example_lib env0 ev_tok timed_out)
       = make_response 500
           (JObj [(S ''error'', JStr (S ''Internal server error'')),
                  (S ''detail'', JStr (S ''invalid literal for int() with base 10: ''
                                       @ [39] @ S ''5844553333:b063s6yM'' @ [39]))])
           (Some (S ''*''))"
    using i
    by (simp add: handler_def handler_try_def ev_tok_def mk_event_def env0_def getenv_def
        dict_get_def dict_get_default_def py_or_def Let_def py_strip_def)
  have c: "contains (body (outcome (handler example_lib env0 ev_tok timed_out))) (S ''5844553333:b063s6yM'')"
    unfolding o by (simp add: make_response_def dumps_str_def dumps_char_def)
  from o c show ?thesis by (simp add: env0_def)
qed

end
